theory Spec2Isabelle
  imports Complex_Main "HOL-Library.Log_Nat"
begin

section \<open>Values of the JavaScript runtime\<close>

text \<open>
  The controllers are TypeScript on Node. A value that may be \<^verbatim>\<open>undefined\<close> or
  \<^verbatim>\<open>null\<close> is an \<open>option\<close>; a condition \<^verbatim>\<open>!x\<close> on such a string is false
  exactly when the string is present and not empty.
\<close>

definition truthy :: "string option \<Rightarrow> bool" where
  "truthy x = (case x of None \<Rightarrow> False | Some s \<Rightarrow> s \<noteq> [])"

text \<open>Parsed JSON, as \<^verbatim>\<open>express.json()\<close> leaves it in \<^verbatim>\<open>req.body\<close>.\<close>

datatype json =
    JNull
  | JBool bool
  | JNum rat
  | JStr string
  | JArr "json list"
  | JObj "(string \<times> json) list"

text \<open>
  A value handed to \<^verbatim>\<open>JSON.stringify\<close>: either a plain tree, or an object graph with a
  cycle, on which \<^verbatim>\<open>JSON.stringify\<close> throws a TypeError.
\<close>

datatype js_value = Plain json | Cyclic

text \<open>
  \<^verbatim>\<open>!v\<close> on a value of the request body, which no handler validates: false exactly
  when \<open>v\<close> is there and is not \<^verbatim>\<open>null\<close>, \<^verbatim>\<open>false\<close>, 0 or the empty string.
\<close>

definition truthy_json :: "json option \<Rightarrow> bool" where
  "truthy_json v =
     (case v of
        None \<Rightarrow> False
      | Some JNull \<Rightarrow> False
      | Some (JBool b) \<Rightarrow> b
      | Some (JNum q) \<Rightarrow> q \<noteq> 0
      | Some (JStr t) \<Rightarrow> t \<noteq> []
      | Some _ \<Rightarrow> True)"

section \<open>The store behind the Prisma client\<close>

text \<open>
  Each table is a list of rows keyed by the primary key \<^verbatim>\<open>id\<close>. A bed is always
  read together with its room and the room's ward (\<^verbatim>\<open>include: { room: { include:
  { ward: true } } }\<close>); the joined columns the handlers use are kept on the bed row.
\<close>

record admission =
  adm_hospitalId :: string
  adm_patientId :: string
  adm_wardId :: "string option"
  adm_roomId :: "string option"
  adm_bedId :: "string option"
  adm_assignedWardManager :: "string option"
  adm_status :: string
  adm_dischargeDate :: "nat option"
  adm_dischargeNotes :: "string option"
  adm_dischargeSummary :: "string option"

record bed =
  bed_roomId :: string
  bed_room_wardId :: string
  bed_room_ward_hospitalId :: string
  bed_status :: string
  bed_currentPatientId :: "string option"
  bed_currentAdmissionId :: "string option"

record inventoryItem =
  item_hospitalId :: string
  item_name :: string
  item_stock :: rat

record billingRecord =
  bill_hospitalId :: string
  bill_totalAmount :: rat
  bill_paidAmount :: rat
  bill_status :: string

record payment =
  pay_id :: string
  pay_billingRecordId :: string
  pay_amount :: rat
  pay_method :: string
  pay_reference :: "string option"
  pay_receivedBy :: string

record user =
  usr_id :: string
  usr_email :: string
  usr_password :: string
  usr_firstName :: string
  usr_lastName :: string
  usr_role :: string
  usr_hospitalId :: "string option"
  usr_active :: bool

record refreshToken =
  rt_token :: string
  rt_userId :: string

record auditLog =
  al_userId :: "string option"
  al_hospitalId :: "string option"
  al_action :: string
  al_entity :: string
  al_entityId :: "string option"
  al_details :: "json option"
  al_ipAddress :: "string option"
  al_userAgent :: "string option"

record db =
  admissions :: "(string \<times> admission) list"
  beds :: "(string \<times> bed) list"
  inventoryItems :: "(string \<times> inventoryItem) list"
  billingRecords :: "(string \<times> billingRecord) list"
  payments :: "payment list"
  users :: "user list"
  refreshTokens :: "refreshToken list"
  auditLogs :: "auditLog list"
  console :: "string list"

text \<open>
  \<^verbatim>\<open>update({ where: { id }, data })\<close> rewrites the row with that key; the key is
  unique, so only the first match is touched.
\<close>

fun update_row :: "string \<Rightarrow> ('r \<Rightarrow> 'r) \<Rightarrow> (string \<times> 'r) list \<Rightarrow> (string \<times> 'r) list" where
  "update_row k f [] = []"
| "update_row k f ((k', r) # rows) =
     (if k' = k then (k', f r) # rows else (k', r) # update_row k f rows)"

text \<open>
  Any call on the Prisma client may reject (connection lost, constraint violated). Which
  calls reject is an input of the model: \<open>fails c\<close> says that the storage call \<open>c\<close>
  throws. A computation either throws, leaving the store as it was at that moment, or
  returns a value and a store.
\<close>

datatype db_call =
    AdmissionFindUnique
  | BedFindUnique
  | BedUpdate
  | Transaction
  | InventoryItemFindUnique
  | InventoryItemUpdate
  | BillingRecordFindUnique
  | BillingRecordUpdate
  | PaymentCreate
  | UserCount
  | UserFindUnique
  | UserCreate
  | RefreshTokenCreate
  | HashPassword
  | DashboardQuery
  | BedCount
  | AuditLogCreate

datatype 'a result = Throws db | Returns 'a db

type_synonym 'a io = "db \<Rightarrow> 'a result"

definition await :: "'a io \<Rightarrow> ('a \<Rightarrow> 'b io) \<Rightarrow> 'b io" where
  "await m f s = (case m s of Throws s' \<Rightarrow> Throws s' | Returns a s' \<Rightarrow> f a s')"

definition send :: "'a \<Rightarrow> 'a io" where
  "send a s = Returns a s"

definition try_catch :: "'a io \<Rightarrow> 'a io \<Rightarrow> 'a io" where
  "try_catch body handler s = (case body s of Throws s' \<Rightarrow> handler s' | Returns a s' \<Rightarrow> Returns a s')"

definition console_error :: "string \<Rightarrow> unit io" where
  "console_error msg s = Returns () (s\<lparr>console := console s @ [msg]\<rparr>)"

text \<open>A read that may reject.\<close>

definition db_read :: "(db_call \<Rightarrow> bool) \<Rightarrow> db_call \<Rightarrow> (db \<Rightarrow> 'a) \<Rightarrow> 'a io" where
  "db_read fails c q s = (if fails c then Throws s else Returns (q s) s)"

text \<open>
  An HTTP response: the status code and either \<^verbatim>\<open>{ error: msg }\<close> or the payload of a
  success.
\<close>

datatype 'a reply = Error string | Json 'a

type_synonym 'a response = "nat \<times> 'a reply"

text \<open>The principal \<^verbatim>\<open>req.user\<close> decoded from the access token.\<close>

record principal =
  user_id :: string
  role :: string
  hospitalId :: "string option"

record request_meta =
  ip :: string
  userAgent :: string

section \<open>Audit recorder\<close>

record AuditLogData =
  ad_userId :: "string option"
  ad_hospitalId :: "string option"
  ad_action :: string
  ad_entity :: string
  ad_entityId :: "string option"
  ad_details :: "js_value option"
  ad_ipAddress :: "string option"
  ad_userAgent :: "string option"

text \<open>\<^verbatim>\<open>JSON.parse(JSON.stringify(v))\<close>: throws on a cyclic graph.\<close>

definition json_roundtrip :: "js_value \<Rightarrow> json io" where
  "json_roundtrip v s = (case v of Plain j \<Rightarrow> Returns j s | Cyclic \<Rightarrow> Throws s)"

definition auditLog_create :: "(db_call \<Rightarrow> bool) \<Rightarrow> auditLog \<Rightarrow> unit io" where
  "auditLog_create fails row s =
     (if fails AuditLogCreate then Throws s
      else Returns () (s\<lparr>auditLogs := auditLogs s @ [row]\<rparr>))"

definition createAuditLog :: "(db_call \<Rightarrow> bool) \<Rightarrow> AuditLogData \<Rightarrow> unit io" where
  "createAuditLog fails data =
     try_catch
       (await (case ad_details data of
                 None \<Rightarrow> send None
               | Some v \<Rightarrow> await (json_roundtrip v) (\<lambda>j. send (Some j)))
          (\<lambda>details.
             auditLog_create fails
               \<lparr>al_userId = ad_userId data,
                al_hospitalId = ad_hospitalId data,
                al_action = ad_action data,
                al_entity = ad_entity data,
                al_entityId = ad_entityId data,
                al_details = details,
                al_ipAddress = ad_ipAddress data,
                al_userAgent = ad_userAgent data\<rparr>))
       (console_error ''Failed to create audit log:'')"

section \<open>Tenant scope guard\<close>

text \<open>
  Every handler that loads a row by its key repeats one expression before it answers:
  \<^verbatim>\<open>req.user.role !== 'SUPER_ADMIN' && row.hospitalId !== req.user.hospitalId\<close>, and
  sends 403 when it holds. \<^verbatim>\<open>req.user.hospitalId\<close> is \<^verbatim>\<open>string | null\<close>; so is the
  \<^verbatim>\<open>hospitalId\<close> of a user row. Strict inequality of two such values is inequality
  of options.
\<close>

definition hospital_access_denied :: "principal \<Rightarrow> string option \<Rightarrow> bool" where
  "hospital_access_denied u resourceHospitalId =
     (role u \<noteq> ''SUPER_ADMIN'' \<and> resourceHospitalId \<noteq> hospitalId u)"

section \<open>Admissions and beds\<close>

definition admission_findUnique :: "(db_call \<Rightarrow> bool) \<Rightarrow> string \<Rightarrow> admission option io" where
  "admission_findUnique fails k = db_read fails AdmissionFindUnique (\<lambda>s. map_of (admissions s) k)"

definition bed_findUnique :: "(db_call \<Rightarrow> bool) \<Rightarrow> string \<Rightarrow> bed option io" where
  "bed_findUnique fails k = db_read fails BedFindUnique (\<lambda>s. map_of (beds s) k)"

text \<open>
  A pending write, as the Prisma client builds it before it is awaited or handed to
  \<^verbatim>\<open>$transaction\<close>: applied to a store it gives the new store, or nothing when the
  row to update does not exist (Prisma rejects with P2025).
\<close>

definition admission_update_op :: "string \<Rightarrow> (admission \<Rightarrow> admission) \<Rightarrow> db \<Rightarrow> db option" where
  "admission_update_op k f s =
     (case map_of (admissions s) k of
        None \<Rightarrow> None
      | Some _ \<Rightarrow> Some (s\<lparr>admissions := update_row k f (admissions s)\<rparr>))"

definition bed_update_op :: "string \<Rightarrow> (bed \<Rightarrow> bed) \<Rightarrow> db \<Rightarrow> db option" where
  "bed_update_op k f s =
     (case map_of (beds s) k of
        None \<Rightarrow> None
      | Some _ \<Rightarrow> Some (s\<lparr>beds := update_row k f (beds s)\<rparr>))"

definition bed_update :: "(db_call \<Rightarrow> bool) \<Rightarrow> string \<Rightarrow> (bed \<Rightarrow> bed) \<Rightarrow> unit io" where
  "bed_update fails k f s =
     (if fails BedUpdate then Throws s
      else case bed_update_op k f s of None \<Rightarrow> Throws s | Some s' \<Rightarrow> Returns () s')"

fun run_ops :: "(db \<Rightarrow> db option) list \<Rightarrow> db \<Rightarrow> db option" where
  "run_ops [] s = Some s"
| "run_ops (w # ws) s = (case w s of None \<Rightarrow> None | Some s' \<Rightarrow> run_ops ws s')"

text \<open>\<^verbatim>\<open>prisma.$transaction([...])\<close>: all the writes of the list, or none of them.\<close>

definition transaction :: "(db_call \<Rightarrow> bool) \<Rightarrow> (db \<Rightarrow> db option) list \<Rightarrow> unit io" where
  "transaction fails ws s =
     (if fails Transaction then Throws s
      else case run_ops ws s of None \<Rightarrow> Throws s | Some s' \<Rightarrow> Returns () s')"

definition released :: "bed \<Rightarrow> bed" where
  "released b = b\<lparr>bed_status := ''AVAILABLE'', bed_currentPatientId := None,
                  bed_currentAdmissionId := None\<rparr>"

definition occupied_by :: "string \<Rightarrow> string \<Rightarrow> bed \<Rightarrow> bed" where
  "occupied_by patientId admissionId b =
     b\<lparr>bed_status := ''OCCUPIED'', bed_currentPatientId := Some patientId,
       bed_currentAdmissionId := Some admissionId\<rparr>"

definition admitted_to :: "string \<Rightarrow> bed \<Rightarrow> string \<Rightarrow> admission \<Rightarrow> admission" where
  "admitted_to bedId b managerId a =
     a\<lparr>adm_wardId := Some (bed_room_wardId b), adm_roomId := Some (bed_roomId b),
       adm_bedId := Some bedId, adm_assignedWardManager := Some managerId,
       adm_status := ''ADMITTED''\<rparr>"

text \<open>
  \<^verbatim>\<open>assignBed\<close> (admissionController.ts). \<open>id'\<close> is \<^verbatim>\<open>req.params.id\<close>, \<open>bedId\<close> is
  \<^verbatim>\<open>req.body.bedId\<close>. The bed the admission already holds is released by an awaited
  \<^verbatim>\<open>prisma.bed.update\<close> of its own; the transaction that follows holds the update of the
  admission and the update of the new bed. A reply carries the row the handler sends;
  the projections of related rows joined to it (\<^verbatim>\<open>include\<close>) are left out, here and in
  the other handlers.
\<close>

definition assignBed ::
  "(db_call \<Rightarrow> bool) \<Rightarrow> principal option \<Rightarrow> request_meta \<Rightarrow> string \<Rightarrow> string option
     \<Rightarrow> admission response io" where
  "assignBed fails user meta id' bedId =
     try_catch
       (case user of
          None \<Rightarrow> send (401, Error ''Authentication required'')
        | Some u \<Rightarrow>
            (case bedId of
               None \<Rightarrow> send (400, Error ''Bed ID is required'')
             | Some bid \<Rightarrow>
                 if bid = [] then send (400, Error ''Bed ID is required'')
                 else
                   await (admission_findUnique fails id') (\<lambda>existingAdmission.
                   case existingAdmission of
                     None \<Rightarrow> send (404, Error ''Admission not found'')
                   | Some existing \<Rightarrow>
                       if hospital_access_denied u (Some (adm_hospitalId existing))
                       then send (403, Error ''Access denied'')
                       else
                         await (bed_findUnique fails bid) (\<lambda>found.
                         case found of
                           None \<Rightarrow> send (404, Error ''Bed not found'')
                         | Some b \<Rightarrow>
                             if bed_room_ward_hospitalId b \<noteq> adm_hospitalId existing
                             then send (400, Error ''Bed does not belong to the same hospital'')
                             else if bed_status b \<noteq> ''AVAILABLE''
                             then send (400, Error ''Bed is not available'')
                             else
                               await (case adm_bedId existing of
                                        None \<Rightarrow> send ()
                                      | Some old \<Rightarrow>
                                          if old = [] then send ()
                                          else bed_update fails old released) (\<lambda>_.
                               await (transaction fails
                                        [admission_update_op id' (admitted_to bid b (user_id u)),
                                         bed_update_op bid
                                           (occupied_by (adm_patientId existing) id')]) (\<lambda>_.
                               await (createAuditLog fails
                                        \<lparr>ad_userId = Some (user_id u),
                                         ad_hospitalId = Some (adm_hospitalId existing),
                                         ad_action = ''ASSIGN_BED'',
                                         ad_entity = ''ADMISSION'',
                                         ad_entityId = Some id',
                                         ad_details = Some (Plain (JObj
                                           [(''bedId'', JStr bid),
                                            (''wardId'', JStr (bed_room_wardId b)),
                                            (''roomId'', JStr (bed_roomId b))])),
                                         ad_ipAddress = Some (ip meta),
                                         ad_userAgent = Some (userAgent meta)\<rparr>) (\<lambda>_.
                               send (200, Json (admitted_to bid b (user_id u) existing)))))))))
       (await (console_error ''Assign bed error:'') (\<lambda>_.
        send (500, Error ''Failed to assign bed'')))"

text \<open>
  \<^verbatim>\<open>dischargePatient\<close> (admissionController.ts). \<open>now\<close> is the clock read by
  \<^verbatim>\<open>new Date()\<close>. The release of the bed is pushed onto the list of writes that
  \<^verbatim>\<open>$transaction\<close> receives.
\<close>

definition discharged :: "nat \<Rightarrow> string option \<Rightarrow> string option \<Rightarrow> admission \<Rightarrow> admission" where
  "discharged now dischargeNotes dischargeSummary a =
     a\<lparr>adm_status := ''DISCHARGED'', adm_dischargeDate := Some now,
       adm_dischargeNotes := dischargeNotes, adm_dischargeSummary := dischargeSummary\<rparr>"

definition dischargePatient ::
  "(db_call \<Rightarrow> bool) \<Rightarrow> principal option \<Rightarrow> request_meta \<Rightarrow> nat \<Rightarrow> string \<Rightarrow> string option
     \<Rightarrow> string option \<Rightarrow> admission response io" where
  "dischargePatient fails user meta now id' dischargeNotes dischargeSummary =
     try_catch
       (case user of
          None \<Rightarrow> send (401, Error ''Authentication required'')
        | Some u \<Rightarrow>
            await (admission_findUnique fails id') (\<lambda>existingAdmission.
            case existingAdmission of
              None \<Rightarrow> send (404, Error ''Admission not found'')
            | Some existing \<Rightarrow>
                if hospital_access_denied u (Some (adm_hospitalId existing))
                then send (403, Error ''Access denied'')
                else if adm_status existing = ''DISCHARGED''
                then send (400, Error ''Patient already discharged'')
                else
                  await (transaction fails
                           (admission_update_op id'
                              (discharged now dischargeNotes dischargeSummary) #
                            (case adm_bedId existing of
                               None \<Rightarrow> []
                             | Some old \<Rightarrow>
                                 if old = [] then [] else [bed_update_op old released]))) (\<lambda>_.
                  await (createAuditLog fails
                           \<lparr>ad_userId = Some (user_id u),
                            ad_hospitalId = Some (adm_hospitalId existing),
                            ad_action = ''DISCHARGE_PATIENT'',
                            ad_entity = ''ADMISSION'',
                            ad_entityId = Some id',
                            ad_details = Some (Plain (JObj
                              [(''patientId'', JStr (adm_patientId existing)),
                               (''dischargeDate'', JNum (of_nat now))])),
                            ad_ipAddress = Some (ip meta),
                            ad_userAgent = Some (userAgent meta)\<rparr>) (\<lambda>_.
                  send (200, Json (discharged now dischargeNotes dischargeSummary existing))))))
       (await (console_error ''Discharge patient error:'') (\<lambda>_.
        send (500, Error ''Failed to discharge patient'')))"

text \<open>
  \<^verbatim>\<open>updateBedStatus\<close> (ward controller): staff set the status of a bed directly.
\<close>

definition updateBedStatus ::
  "(db_call \<Rightarrow> bool) \<Rightarrow> principal option \<Rightarrow> request_meta \<Rightarrow> string \<Rightarrow> string option
     \<Rightarrow> bed response io" where
  "updateBedStatus fails user meta id' status =
     try_catch
       (case user of
          None \<Rightarrow> send (401, Error ''Authentication required'')
        | Some u \<Rightarrow>
            (case status of
               None \<Rightarrow> send (400, Error ''Status is required'')
             | Some st \<Rightarrow>
                 if st = [] then send (400, Error ''Status is required'')
                 else
                   await (bed_findUnique fails id') (\<lambda>found.
                   case found of
                     None \<Rightarrow> send (404, Error ''Bed not found'')
                   | Some existingBed \<Rightarrow>
                       if hospital_access_denied u (Some (bed_room_ward_hospitalId existingBed))
                       then send (403, Error ''Access denied'')
                       else
                         await (bed_update fails id' (\<lambda>b. b\<lparr>bed_status := st\<rparr>)) (\<lambda>_.
                         await (createAuditLog fails
                                  \<lparr>ad_userId = Some (user_id u),
                                   ad_hospitalId = Some (bed_room_ward_hospitalId existingBed),
                                   ad_action = ''UPDATE_BED_STATUS'',
                                   ad_entity = ''BED'',
                                   ad_entityId = Some id',
                                   ad_details = Some (Plain (JObj
                                     [(''status'', JStr st),
                                      (''wardId'', JStr (bed_room_wardId existingBed))])),
                                   ad_ipAddress = Some (ip meta),
                                   ad_userAgent = Some (userAgent meta)\<rparr>) (\<lambda>_.
                         send (200, Json (existingBed\<lparr>bed_status := st\<rparr>)))))))
       (await (console_error ''Update bed status error:'') (\<lambda>_.
        send (500, Error ''Failed to update bed status'')))"

section \<open>Numbers\<close>

text \<open>
  A JavaScript number is an IEEE 754 binary64 value. The finite ones are rationals, and
  each arithmetic operation returns the exact result rounded to the nearest value with a
  53 bit significand, ties to the even significand. \<open>to_double\<close> is that rounding for
  results in the normal range (no overflow to \<^verbatim>\<open>Infinity\<close>, no subnormal result),
  which is where the amounts and counts of this program are.
\<close>

definition pow2 :: "int \<Rightarrow> rat" where
  "pow2 e = (if 0 \<le> e then 2 ^ nat e else 1 / 2 ^ nat (- e))"

text \<open>For \<open>q > 0\<close>, the exponent \<open>e\<close> with \<open>2\<^sup>e \<le> q < 2\<^sup>e\<^sup>+\<^sup>1\<close>.\<close>

definition ilog2 :: "rat \<Rightarrow> int" where
  "ilog2 q =
     (case quotient_of q of
        (a, b) \<Rightarrow> (let d = bitlen a - bitlen b in if pow2 d \<le> q then d else d - 1))"

definition round_half_even :: "rat \<Rightarrow> int" where
  "round_half_even m =
     (let f = \<lfloor>m\<rfloor>; d = m - of_int f
      in if d < 1 / 2 then f else if 1 / 2 < d then f + 1 else if even f then f else f + 1)"

definition to_double :: "rat \<Rightarrow> rat" where
  "to_double q =
     (if q = 0 then 0
      else let a = \<bar>q\<bar>; u = pow2 (ilog2 a - 52)
           in sgn q * of_int (round_half_even (a / u)) * u)"

definition js_add :: "rat \<Rightarrow> rat \<Rightarrow> rat" where
  "js_add x y = to_double (x + y)"

definition js_sub :: "rat \<Rightarrow> rat \<Rightarrow> rat" where
  "js_sub x y = to_double (x - y)"

text \<open>
  Division can leave the finite numbers: \<^verbatim>\<open>0 / 0\<close> is \<^verbatim>\<open>NaN\<close> and any other
  number over 0 is an infinity. \<^verbatim>\<open>NaN\<close> and the infinities go through a
  multiplication by a positive number and through \<^verbatim>\<open>Math.round\<close> unchanged.
\<close>

datatype js_number = Num rat | NaN | PosInfinity | NegInfinity

definition js_div :: "rat \<Rightarrow> rat \<Rightarrow> js_number" where
  "js_div x y =
     (if y = 0
      then (if x = 0 then NaN else if 0 < x then PosInfinity else NegInfinity)
      else Num (to_double (x / y)))"

definition js_mul :: "js_number \<Rightarrow> rat \<Rightarrow> js_number" where
  "js_mul v y =
     (case v of
        Num x \<Rightarrow> Num (to_double (x * y))
      | NaN \<Rightarrow> NaN
      | PosInfinity \<Rightarrow> (if y = 0 then NaN else if 0 < y then PosInfinity else NegInfinity)
      | NegInfinity \<Rightarrow> (if y = 0 then NaN else if 0 < y then NegInfinity else PosInfinity))"

text \<open>\<^verbatim>\<open>Math.round\<close>: the nearest integer, a tie going up.\<close>

definition Math_round :: "js_number \<Rightarrow> js_number" where
  "Math_round v = (case v of Num x \<Rightarrow> Num (of_int \<lfloor>x + 1 / 2\<rfloor>) | _ \<Rightarrow> v)"

section \<open>Inventory\<close>

definition inventoryItem_findUnique ::
  "(db_call \<Rightarrow> bool) \<Rightarrow> string \<Rightarrow> inventoryItem option io" where
  "inventoryItem_findUnique fails k =
     db_read fails InventoryItemFindUnique (\<lambda>s. map_of (inventoryItems s) k)"

text \<open>
  The value of \<^verbatim>\<open>newStock\<close> when it reaches \<^verbatim>\<open>prisma.inventoryItem.update\<close>: a
  number, \<^verbatim>\<open>NaN\<close>, or something that is not a number at all (the string that
  \<^verbatim>\<open>+=\<close> builds from a string, an array or an object, or under \<^verbatim>\<open>SET\<close> an
  adjustment that is not a number).
\<close>

datatype stock_value = SNum rat | SNaN | SNotNumber

text \<open>
  \<^verbatim>\<open>ToNumber\<close>, applied by \<^verbatim>\<open>-=\<close>: \<^verbatim>\<open>null\<close> is 0, \<^verbatim>\<open>true\<close> is 1,
  \<^verbatim>\<open>false\<close> is 0. What a string, an array or an object converts to is the runtime's
  parse of its text; it is the parameter \<open>coerce\<close>, \<open>None\<close> standing for \<^verbatim>\<open>NaN\<close>.
\<close>

definition to_number :: "(json \<Rightarrow> rat option) \<Rightarrow> json \<Rightarrow> rat option" where
  "to_number coerce v =
     (case v of
        JNum q \<Rightarrow> Some q
      | JNull \<Rightarrow> Some 0
      | JBool b \<Rightarrow> Some (if b then 1 else 0)
      | _ \<Rightarrow> coerce v)"

text \<open>\<^verbatim>\<open>newStock += adjustment\<close>: a sum of numbers, or a concatenation of strings.\<close>

definition plus_assign :: "rat \<Rightarrow> json \<Rightarrow> stock_value" where
  "plus_assign stock v =
     (case v of
        JNum q \<Rightarrow> SNum (js_add stock q)
      | JNull \<Rightarrow> SNum (js_add stock 0)
      | JBool b \<Rightarrow> SNum (js_add stock (if b then 1 else 0))
      | _ \<Rightarrow> SNotNumber)"

text \<open>\<^verbatim>\<open>newStock -= adjustment\<close>.\<close>

definition minus_assign :: "(json \<Rightarrow> rat option) \<Rightarrow> rat \<Rightarrow> json \<Rightarrow> stock_value" where
  "minus_assign coerce stock v =
     (case to_number coerce v of
        Some q \<Rightarrow> SNum (js_sub stock q)
      | None \<Rightarrow> SNaN)"

text \<open>
  The Prisma schema is not among the sources, so which numbers the \<^verbatim>\<open>stock\<close>
  column stores is the parameter \<open>storable\<close> (all doubles for a \<^verbatim>\<open>Float\<close> column,
  the 32 bit integers for an \<^verbatim>\<open>Int\<close> column). The column is taken to be required
  and numeric, as the handlers use it: the client rejects \<^verbatim>\<open>NaN\<close> and every value
  that is not a number.
\<close>

definition inventoryItem_update ::
  "(db_call \<Rightarrow> bool) \<Rightarrow> (rat \<Rightarrow> bool) \<Rightarrow> string \<Rightarrow> stock_value \<Rightarrow> inventoryItem io" where
  "inventoryItem_update fails storable k v s =
     (if fails InventoryItemUpdate then Throws s
      else case v of
             SNum n \<Rightarrow>
               (if storable n
                then (case map_of (inventoryItems s) k of
                        None \<Rightarrow> Throws s
                      | Some i \<Rightarrow>
                          Returns (i\<lparr>item_stock := n\<rparr>)
                            (s\<lparr>inventoryItems :=
                                 update_row k (\<lambda>i. i\<lparr>item_stock := n\<rparr>) (inventoryItems s)\<rparr>))
                else Throws s)
           | _ \<Rightarrow> Throws s)"

definition json_of_stock :: "stock_value \<Rightarrow> json" where
  "json_of_stock v = (case v of SNum n \<Rightarrow> JNum n | _ \<Rightarrow> JNull)"

text \<open>
  \<^verbatim>\<open>updateStock\<close> (inventory controller). \<open>adjustment\<close> and \<open>type'\<close> are the fields
  \<^verbatim>\<open>adjustment\<close> and \<^verbatim>\<open>type\<close> of the request body, any JSON values: the route
  declares validators and no code reads their result. The arithmetic is JavaScript's.
  A \<open>type'\<close> that is none of the three modes leaves \<^verbatim>\<open>newStock\<close> at the current
  stock. \<open>writeStock\<close> is the tail of the handler: the update of the row, the audit
  record and the reply.
\<close>

definition writeStock ::
  "(db_call \<Rightarrow> bool) \<Rightarrow> (rat \<Rightarrow> bool) \<Rightarrow> principal \<Rightarrow> request_meta \<Rightarrow> string \<Rightarrow> inventoryItem
     \<Rightarrow> json \<Rightarrow> json \<Rightarrow> stock_value \<Rightarrow> inventoryItem response io" where
  "writeStock fails storable u meta id' existingItem ty adj newStock =
     await (inventoryItem_update fails storable id' newStock) (\<lambda>inventoryItem.
     await (createAuditLog fails
              \<lparr>ad_userId = Some (user_id u),
               ad_hospitalId = Some (item_hospitalId existingItem),
               ad_action = ''UPDATE_STOCK'',
               ad_entity = ''INVENTORY_ITEM'',
               ad_entityId = Some id',
               ad_details = Some (Plain (JObj
                 [(''name'', JStr (item_name inventoryItem)),
                  (''type'', ty),
                  (''adjustment'', adj),
                  (''previousStock'', JNum (item_stock existingItem)),
                  (''newStock'', json_of_stock newStock)])),
               ad_ipAddress = Some (ip meta),
               ad_userAgent = Some (userAgent meta)\<rparr>) (\<lambda>_.
     send (200, Json inventoryItem)))"

definition updateStock ::
  "(db_call \<Rightarrow> bool) \<Rightarrow> (rat \<Rightarrow> bool) \<Rightarrow> (json \<Rightarrow> rat option) \<Rightarrow> principal option
     \<Rightarrow> request_meta \<Rightarrow> string \<Rightarrow> json option \<Rightarrow> json option
     \<Rightarrow> inventoryItem response io" where
  "updateStock fails storable coerce user meta id' adjustment type' =
     try_catch
       (case user of
          None \<Rightarrow> send (401, Error ''Authentication required'')
        | Some u \<Rightarrow>
            (case (adjustment, type') of
               (Some adj, Some ty) \<Rightarrow>
                 if \<not> truthy_json (Some ty)
                 then send (400, Error ''Adjustment and type are required'')
                 else
                   await (inventoryItem_findUnique fails id') (\<lambda>found.
                   case found of
                     None \<Rightarrow> send (404, Error ''Inventory item not found'')
                   | Some existingItem \<Rightarrow>
                       if hospital_access_denied u (Some (item_hospitalId existingItem))
                       then send (403, Error ''Access denied'')
                       else if ty = JStr ''ADD''
                       then writeStock fails storable u meta id' existingItem ty adj
                              (plus_assign (item_stock existingItem) adj)
                       else if ty = JStr ''SUBTRACT''
                       then (case minus_assign coerce (item_stock existingItem) adj of
                               SNum n \<Rightarrow>
                                 if n < 0 then send (400, Error ''Insufficient stock'')
                                 else writeStock fails storable u meta id' existingItem ty adj
                                        (SNum n)
                             | v \<Rightarrow> writeStock fails storable u meta id' existingItem ty adj v)
                       else if ty = JStr ''SET''
                       then writeStock fails storable u meta id' existingItem ty adj
                              (case adj of JNum q \<Rightarrow> SNum q | _ \<Rightarrow> SNotNumber)
                       else writeStock fails storable u meta id' existingItem ty adj
                              (SNum (item_stock existingItem)))
             | _ \<Rightarrow> send (400, Error ''Adjustment and type are required'')))
       (await (console_error ''Update stock error:'') (\<lambda>_.
        send (500, Error ''Failed to update stock'')))"

section \<open>Billing\<close>






section \<open>Users and bootstrap\<close>

definition find_user :: "string \<Rightarrow> user list \<Rightarrow> user option" where
  "find_user k us = find (\<lambda>x. usr_id x = k) us"

text \<open>
  \<^verbatim>\<open>getUserById\<close> (user controller): the guard on a row whose tenant may be absent.
  The \<^verbatim>\<open>select\<close> leaves the password hash out of what is read and returned.
\<close>

record user_view =
  uv_id :: string
  uv_email :: string
  uv_firstName :: string
  uv_lastName :: string
  uv_role :: string
  uv_hospitalId :: "string option"
  uv_active :: bool

definition selected :: "user \<Rightarrow> user_view" where
  "selected x = \<lparr>uv_id = usr_id x, uv_email = usr_email x, uv_firstName = usr_firstName x,
                 uv_lastName = usr_lastName x, uv_role = usr_role x,
                 uv_hospitalId = usr_hospitalId x, uv_active = usr_active x\<rparr>"

definition getUserById ::
  "(db_call \<Rightarrow> bool) \<Rightarrow> principal option \<Rightarrow> string \<Rightarrow> user_view response io" where
  "getUserById fails reqUser id' =
     try_catch
       (case reqUser of
          None \<Rightarrow> send (401, Error ''Authentication required'')
        | Some u \<Rightarrow>
            await (db_read fails UserFindUnique
                     (\<lambda>s. map_option selected (find_user id' (users s)))) (\<lambda>found.
            case found of
              None \<Rightarrow> send (404, Error ''User not found'')
            | Some usr \<Rightarrow>
                if hospital_access_denied u (uv_hospitalId usr)
                then send (403, Error ''Access denied'')
                else send (200, Json usr)))
       (await (console_error ''Get user error:'') (\<lambda>_.
        send (500, Error ''Failed to get user'')))"









section \<open>Payment webhook\<close>

text \<open>
  Property access \<^verbatim>\<open>v.k\<close>. The outer \<open>None\<close> is the TypeError of reading a property
  of \<^verbatim>\<open>null\<close> or \<^verbatim>\<open>undefined\<close>; the inner \<open>None\<close> is the value \<^verbatim>\<open>undefined\<close>.
\<close>

definition get_prop :: "json option \<Rightarrow> string \<Rightarrow> json option option" where
  "get_prop v k =
     (case v of
        None \<Rightarrow> None
      | Some JNull \<Rightarrow> None
      | Some (JObj kvs) \<Rightarrow> Some (map_of kvs k)
      | Some _ \<Rightarrow> Some None)"

datatype webhook_reply = Message string | Received bool

text \<open>
  \<^verbatim>\<open>console.log(label, event.data.reference)\<close>: the line logged, or \<open>None\<close> when
  reading the reference throws because \<^verbatim>\<open>event.data\<close> is \<^verbatim>\<open>undefined\<close> or
  \<^verbatim>\<open>null\<close>.
\<close>

definition log_reference :: "string \<Rightarrow> json \<Rightarrow> string list option" where
  "log_reference label event =
     (case get_prop (Some event) ''data'' of
        None \<Rightarrow> None
      | Some d \<Rightarrow>
          (case get_prop d ''reference'' of
             None \<Rightarrow> None
           | Some _ \<Rightarrow> Some [label]))"

text \<open>
  The \<^verbatim>\<open>switch\<close> on \<^verbatim>\<open>event.event\<close> inside the \<^verbatim>\<open>try\<close>: the lines logged, or
  \<open>None\<close> when it throws.
\<close>

definition handle_event :: "json \<Rightarrow> json option \<Rightarrow> string list option" where
  "handle_event event name =
     (if name = Some (JStr ''charge.success'')
      then log_reference ''[Payment] Charge successful:'' event
      else if name = Some (JStr ''charge.failed'')
      then log_reference ''[Payment] Charge failed:'' event
      else if name = Some (JStr ''transfer.success'')
      then log_reference ''[Payment] Transfer successful:'' event
      else if name = Some (JStr ''transfer.failed'')
      then log_reference ''[Payment] Transfer failed:'' event
      else Some [''[Payment] Unhandled event:''])"

text \<open>
  \<^verbatim>\<open>router.post('/webhook')\<close> (payment routes). \<open>hmac\<close> stands for
  \<^verbatim>\<open>crypto.createHmac('sha512', secret).update(JSON.stringify(body)).digest('hex')\<close>;
  \<open>secret\<close> is \<^verbatim>\<open>process.env.PAYSTACK_WEBHOOK_SECRET\<close> and \<open>signature\<close> the header
  \<^verbatim>\<open>x-paystack-signature\<close>. The result is the response and the console lines, or no
  response at all when an exception leaves the handler (the read of \<^verbatim>\<open>event.event\<close>
  stands before the \<^verbatim>\<open>try\<close>).
\<close>

definition webhook ::
  "(string \<Rightarrow> json \<Rightarrow> string) \<Rightarrow> string option \<Rightarrow> string option \<Rightarrow> json
     \<Rightarrow> (webhook_reply response \<times> string list) option" where
  "webhook hmac secret signature body =
     (if truthy secret \<and> truthy signature \<and>
         (case (secret, signature) of
            (Some k, Some sig) \<Rightarrow> hmac k body \<noteq> sig
          | _ \<Rightarrow> False)
      then Some ((401, Json (Message ''Invalid signature'')),
                 [''[Payment] Invalid webhook signature''])
      else
        (case get_prop (Some body) ''event'' of
           None \<Rightarrow> None
         | Some name \<Rightarrow>
             (case handle_event body name of
                Some logged \<Rightarrow>
                  Some ((200, Json (Received True)), ''[Payment] Webhook event:'' # logged)
              | None \<Rightarrow>
                  Some ((200, Json (Received True)),
                        [''[Payment] Webhook event:'', ''[Payment] Webhook processing error:'']))))"

section \<open>Dashboard\<close>

record bedOccupancy =
  total :: nat
  occupied :: nat
  available :: int
  occupancyPercentage :: js_number

definition bed_count :: "(bed \<Rightarrow> bool) \<Rightarrow> db \<Rightarrow> nat" where
  "bed_count P s = length (filter (\<lambda>kb. P (snd kb)) (beds s))"

text \<open>
  \<^verbatim>\<open>getDashboardStats\<close> (dashboard controller). Before the bed occupancy the handler
  runs a dozen queries over visits, patients, bills, prescriptions, lab orders and the
  inventory; their tables are not in this store, so they are one storage call
  \<open>DashboardQuery\<close> that may reject, and their aggregates are left out of the reply,
  which is the field \<^verbatim>\<open>bedOccupancy\<close>. The occupancy is computed only for a principal
  with a hospital, from two counts over the beds of that hospital's wards; the counts
  may reject like any storage call. The division and the multiplication are
  JavaScript's.
\<close>

definition getDashboardStats ::
  "(db_call \<Rightarrow> bool) \<Rightarrow> principal option \<Rightarrow> bedOccupancy option response io" where
  "getDashboardStats fails user =
     try_catch
       (case user of
          None \<Rightarrow> send (401, Error ''Authentication required'')
        | Some u \<Rightarrow>
            await (db_read fails DashboardQuery (\<lambda>_. ())) (\<lambda>_.
            await (if truthy (hospitalId u)
                   then
                     await (db_read fails BedCount
                              (bed_count (\<lambda>b. Some (bed_room_ward_hospitalId b) = hospitalId u)))
                       (\<lambda>totalBeds.
                     await (db_read fails BedCount
                              (bed_count (\<lambda>b. Some (bed_room_ward_hospitalId b) = hospitalId u \<and>
                                              bed_status b = ''OCCUPIED'')))
                       (\<lambda>occupiedBeds.
                     send (Some \<lparr>total = totalBeds,
                                 occupied = occupiedBeds,
                                 available = int totalBeds - int occupiedBeds,
                                 occupancyPercentage =
                                   (if 0 < totalBeds
                                    then Math_round
                                           (js_mul (js_div (of_nat occupiedBeds)
                                                      (of_nat totalBeds)) 100)
                                    else Num 0)\<rparr>)))
                   else send None) (\<lambda>bedOccupancy.
            send (200, Json bedOccupancy))))
       (await (console_error ''Get dashboard stats error:'') (\<lambda>_.
        send (500, Error ''Failed to get dashboard statistics'')))"

section \<open>Reading a handler's outcome\<close>

definition status_of :: "'a response result \<Rightarrow> nat option" where
  "status_of r = (case r of Returns (c, _) _ \<Rightarrow> Some c | Throws _ \<Rightarrow> None)"

definition store_of :: "'a result \<Rightarrow> db" where
  "store_of r = (case r of Returns _ s \<Rightarrow> s | Throws s \<Rightarrow> s)"

text \<open>The admissions that are not discharged and reference the bed.\<close>

definition holders :: "string \<Rightarrow> db \<Rightarrow> string list" where
  "holders bedId s =
     map fst (filter (\<lambda>ka. adm_bedId (snd ka) = Some bedId \<and> adm_status (snd ka) \<noteq> ''DISCHARGED'')
                (admissions s))"


section \<open>Example stores\<close>

definition nofail :: "db_call \<Rightarrow> bool" where
  "nofail c = False"

definition meta0 :: request_meta where
  "meta0 = \<lparr>ip = ''10.0.0.7'', userAgent = ''curl/8''\<rparr>"

definition super_admin :: principal where
  "super_admin = \<lparr>user_id = ''u0'', role = ''SUPER_ADMIN'', hospitalId = None\<rparr>"

definition ward_manager :: principal where
  "ward_manager = \<lparr>user_id = ''u1'', role = ''WARD_MANAGER'', hospitalId = Some ''h1''\<rparr>"

definition other_nurse :: principal where
  "other_nurse = \<lparr>user_id = ''u7'', role = ''NURSE'', hospitalId = Some ''h2''\<rparr>"


definition pharmacist :: principal where
  "pharmacist = \<lparr>user_id = ''u4'', role = ''PHARMACIST'', hospitalId = Some ''h1''\<rparr>"

definition empty_db :: db where
  "empty_db = \<lparr>admissions = [], beds = [], inventoryItems = [], billingRecords = [],
                payments = [], users = [], refreshTokens = [], auditLogs = [], console = []\<rparr>"

definition free_bed :: bed where
  "free_bed = \<lparr>bed_roomId = ''r1'', bed_room_wardId = ''w1'', bed_room_ward_hospitalId = ''h1'',
               bed_status = ''AVAILABLE'', bed_currentPatientId = None,
               bed_currentAdmissionId = None\<rparr>"

definition pending :: "string \<Rightarrow> admission" where
  "pending patientId =
     \<lparr>adm_hospitalId = ''h1'', adm_patientId = patientId, adm_wardId = None, adm_roomId = None,
      adm_bedId = None, adm_assignedWardManager = None, adm_status = ''PENDING'',
      adm_dischargeDate = None, adm_dischargeNotes = None, adm_dischargeSummary = None\<rparr>"

definition paracetamol :: inventoryItem where
  "paracetamol = \<lparr>item_hospitalId = ''h1'', item_name = ''Paracetamol 500mg'', item_stock = 10\<rparr>"

definition invoice :: billingRecord where
  "invoice = \<lparr>bill_hospitalId = ''h1'', bill_totalAmount = 8500, bill_paidAmount = 0,
              bill_status = ''PENDING''\<rparr>"

text \<open>
  Hospital h1 with two pending admissions, two free beds, one inventory item and one
  unpaid bill.
\<close>

definition clinic_db :: db where
  "clinic_db = empty_db\<lparr>admissions := [(''a1'', pending ''p1''), (''a2'', pending ''p2'')],
                         beds := [(''b1'', free_bed), (''b2'', free_bed)],
                         inventoryItems := [(''i1'', paracetamol)],
                         billingRecords := [(''bill1'', invoice)]\<rparr>"

text \<open>The same hospital after admission a1 was given bed b1.\<close>

definition clinic_db1 :: db where
  "clinic_db1 =
     store_of (assignBed nofail (Some ward_manager) meta0 ''a1'' (Some ''b1'') clinic_db)"

text \<open>
  A platform with its bootstrap administrator, and an administrator account that a
  SUPER_ADMIN created without a hospital (\<^verbatim>\<open>createUser\<close> lets a SUPER_ADMIN leave
  \<^verbatim>\<open>hospitalId\<close> out).
\<close>

definition root_user :: user where
  "root_user = \<lparr>usr_id = ''u0'', usr_email = ''root@example.org'', usr_password = ''hash'',
                usr_firstName = ''Ada'', usr_lastName = ''Obi'', usr_role = ''SUPER_ADMIN'',
                usr_hospitalId = None, usr_active = True\<rparr>"

definition platform_db :: db where
  "platform_db = empty_db\<lparr>users := [root_user]\<rparr>"

definition unassigned_admin :: principal where
  "unassigned_admin = \<lparr>user_id = ''u9'', role = ''ADMIN'', hospitalId = None\<rparr>"



text \<open>
  A \<^verbatim>\<open>Float\<close> column and an \<^verbatim>\<open>Int\<close> column for the stock, and a runtime whose
  conversion of text to a number is not looked at.
\<close>

definition float_column :: "rat \<Rightarrow> bool" where
  "float_column q = True"

definition int_column :: "rat \<Rightarrow> bool" where
  "int_column q = (of_int \<lfloor>q\<rfloor> = q \<and> - (2 ^ 31) \<le> q \<and> q < 2 ^ 31)"

definition no_text :: "json \<Rightarrow> rat option" where
  "no_text v = None"

text \<open>A stand-in for the keyed hash, and a charge event that carries no data.\<close>

definition toy_hmac :: "string \<Rightarrow> json \<Rightarrow> string" where
  "toy_hmac k body = ''mac:'' @ k"

definition charge_without_data :: json where
  "charge_without_data = JObj [(''event'', JStr ''charge.success'')]"

section \<open>Properties\<close>

subsection \<open>Auxiliary facts\<close>

lemmas io_defs = try_catch_def await_def send_def db_read_def console_error_def

lemma map_of_update_row:
  "map_of (update_row k f rows) k' =
     (if k' = k then map_option f (map_of rows k) else map_of rows k')"
  by (induction rows) auto

lemma createAuditLog_store:
  "createAuditLog fails data s = Returns () (store_of (createAuditLog fails data s))"
  by (cases "ad_details data"; cases "fails AuditLogCreate")
     (auto simp: createAuditLog_def io_defs json_roundtrip_def auditLog_create_def store_of_def
        split: js_value.splits)

lemma createAuditLog_case:
  "(case createAuditLog fails data s of Throws s' \<Rightarrow> g s' | Returns a s' \<Rightarrow> h a s') =
     h () (store_of (createAuditLog fails data s))"
  by (subst createAuditLog_store) simp

lemma createAuditLog_preserves:
  "admissions (store_of (createAuditLog fails data s)) = admissions s"
  "beds (store_of (createAuditLog fails data s)) = beds s"
  "inventoryItems (store_of (createAuditLog fails data s)) = inventoryItems s"
  "billingRecords (store_of (createAuditLog fails data s)) = billingRecords s"
  "payments (store_of (createAuditLog fails data s)) = payments s"
  "users (store_of (createAuditLog fails data s)) = users s"
  "refreshTokens (store_of (createAuditLog fails data s)) = refreshTokens s"
  by (cases "ad_details data"; cases "fails AuditLogCreate";
      auto simp: createAuditLog_def io_defs json_roundtrip_def auditLog_create_def store_of_def
        split: js_value.splits)+

text \<open>The rounding to a double is within half a unit in the last place.\<close>

lemma pow2_powi: "pow2 e = 2 powi e"
  by (simp add: pow2_def power_int_def field_simps)

lemma pow2_pos: "0 < pow2 e"
  by (simp add: pow2_powi)

lemma pow2_diff: "pow2 (x - y) = pow2 x / pow2 y"
  by (simp add: pow2_powi power_int_diff)

lemma bitlen_lower: "0 < a \<Longrightarrow> pow2 (bitlen a - 1) \<le> of_int a"
proof -
  assume a: "0 < a"
  then have "bitlen a \<ge> 1" by (auto simp: bitlen_alt_def)
  moreover from bitlen_bounds[OF a] have "(2::int) ^ nat (bitlen a - 1) \<le> a" by simp
  then have "(of_int ((2::int) ^ nat (bitlen a - 1)) :: rat) \<le> of_int a"
    by (simp only: of_int_le_iff)
  ultimately show ?thesis by (simp add: pow2_def)
qed

lemma bitlen_upper: "0 < b \<Longrightarrow> (of_int b :: rat) < pow2 (bitlen b)"
proof -
  assume b: "0 < b"
  then have "bitlen b \<ge> 1" by (auto simp: bitlen_alt_def)
  moreover from bitlen_bounds[OF b] have "b < (2::int) ^ nat (bitlen b)" by simp
  then have "(of_int b :: rat) < of_int ((2::int) ^ nat (bitlen b))"
    by (simp only: of_int_less_iff)
  ultimately show ?thesis by (simp add: pow2_def)
qed

lemma ilog2_lower:
  assumes "0 < q"
  shows "pow2 (ilog2 q) \<le> q"
proof -
  obtain a b where ab: "quotient_of q = (a, b)" by (cases "quotient_of q")
  then have b: "0 < b" by (rule quotient_of_denom_pos)
  from ab have q: "q = of_int a / of_int b" by (rule quotient_of_div)
  with assms b have a: "0 < a" by (simp add: zero_less_divide_iff)
  let ?d = "bitlen a - bitlen b"
  show ?thesis
  proof (cases "pow2 ?d \<le> q")
    case True
    then show ?thesis by (simp add: ilog2_def ab)
  next
    case False
    have "pow2 (?d - 1) = pow2 (bitlen a - 1) / pow2 (bitlen b)"
      using pow2_diff[of "bitlen a - 1" "bitlen b"] by (simp add: algebra_simps)
    also have "\<dots> \<le> of_int a / pow2 (bitlen b)"
      using bitlen_lower[OF a] pow2_pos[of "bitlen b"] by (simp add: divide_right_mono)
    also have "\<dots> \<le> of_int a / of_int b"
      using bitlen_upper[OF b] a b by (simp add: frac_le)
    finally have "pow2 (?d - 1) \<le> q" by (simp only: q)
    moreover have "ilog2 q = ?d - 1" using False by (simp add: ilog2_def ab)
    ultimately show ?thesis by simp
  qed
qed

lemma round_half_even_near: "\<bar>of_int (round_half_even m) - m\<bar> \<le> 1 / 2"
proof -
  have lo: "of_int \<lfloor>m\<rfloor> \<le> m" and hi: "m < of_int \<lfloor>m\<rfloor> + 1"
    by linarith+
  show ?thesis
    unfolding round_half_even_def Let_def using lo hi
    by (auto simp: abs_le_iff split: if_splits)
qed

lemma to_double_error:
  "\<bar>to_double q - q\<bar> \<le> \<bar>q\<bar> / 2 ^ 53"
proof (cases "q = 0")
  case True
  then show ?thesis by (simp add: to_double_def)
next
  case False
  define a where "a = \<bar>q\<bar>"
  define u where "u = pow2 (ilog2 a - 52)"
  define r where "r = round_half_even (a / u)"
  have a: "0 < a" using False by (simp add: a_def)
  have u: "0 < u" by (simp add: u_def pow2_pos)
  have td: "to_double q = sgn q * of_int r * u"
    using False by (simp add: to_double_def Let_def a_def u_def r_def)
  have qa: "q = sgn q * a" by (simp add: a_def sgn_mult_abs)
  have "to_double q - q = sgn q * (of_int r * u - a)"
    using qa td by (simp add: algebra_simps)
  then have "\<bar>to_double q - q\<bar> = \<bar>of_int r * u - a\<bar>"
    using False by (simp add: abs_mult abs_sgn_eq)
  also have "of_int r * u - a = u * (of_int r - a / u)"
    using u by (simp add: field_simps)
  also have "\<bar>u * (of_int r - a / u)\<bar> = u * \<bar>of_int r - a / u\<bar>"
    using u by (simp add: abs_mult)
  also have "\<dots> \<le> u * (1 / 2)"
    using round_half_even_near[of "a / u"] u unfolding r_def
    by (intro mult_left_mono) auto
  also have "u = pow2 (ilog2 a) / 2 ^ 52"
    using pow2_diff[of "ilog2 a" 52] by (simp add: u_def pow2_def)
  also have "pow2 (ilog2 a) / 2 ^ 52 * (1 / 2) \<le> a / 2 ^ 52 * (1 / 2)"
    using ilog2_lower[OF a] by (simp add: divide_right_mono)
  finally show ?thesis by (simp add: a_def)
qed

text \<open>
  \<open>ilog2\<close> is the exponent its name says, and the rounding leaves every integer of
  magnitude up to \<open>2 ^ 53\<close> as it is: sums of whole amounts in that range are exact.
\<close>

lemma ilog2_upper:
  assumes "0 < q"
  shows "q < pow2 (ilog2 q + 1)"
proof -
  obtain a b where ab: "quotient_of q = (a, b)" by (cases "quotient_of q")
  then have b: "0 < b" by (rule quotient_of_denom_pos)
  from ab have q: "q = of_int a / of_int b" by (rule quotient_of_div)
  with assms b have a: "0 < a" by (simp add: zero_less_divide_iff)
  let ?d = "bitlen a - bitlen b"
  show ?thesis
  proof (cases "pow2 ?d \<le> q")
    case True
    have "of_int a / of_int b < pow2 (bitlen a) / of_int b"
      using bitlen_upper[OF a] b by (simp add: divide_strict_right_mono)
    also have "\<dots> \<le> pow2 (bitlen a) / pow2 (bitlen b - 1)"
      using bitlen_lower[OF b] pow2_pos[of "bitlen b - 1"] pow2_pos[of "bitlen a"]
      by (simp add: frac_le)
    also have "\<dots> = pow2 (?d + 1)"
      using pow2_diff[of "bitlen a" "bitlen b - 1"] by (simp add: algebra_simps)
    finally have "q < pow2 (?d + 1)" by (simp only: q)
    moreover have "ilog2 q = ?d" using True by (simp add: ilog2_def ab)
    ultimately show ?thesis by simp
  next
    case False
    then have "ilog2 q = ?d - 1" by (simp add: ilog2_def ab)
    with False show ?thesis by simp
  qed
qed

lemma round_half_even_of_int: "round_half_even (of_int k) = k"
  by (simp add: round_half_even_def)

lemma pow2_mono: "x \<le> y \<Longrightarrow> pow2 x \<le> pow2 y"
  by (simp add: pow2_powi power_int_increasing)

lemma pow2_nat: "0 \<le> e \<Longrightarrow> pow2 e = of_int (2 ^ nat e)"
  by (simp add: pow2_def)

lemma to_double_of_int:
  assumes "\<bar>n\<bar> \<le> 2 ^ 53"
  shows "to_double (of_int n) = of_int n"
proof (cases "n = 0")
  case True
  then show ?thesis by (simp add: to_double_def)
next
  case False
  define a :: rat where "a = \<bar>of_int n\<bar>"
  define e where "e = ilog2 a"
  define u where "u = pow2 (e - 52)"
  have a1: "1 \<le> a" using False by (simp add: a_def flip: of_int_abs)
  then have a0: "0 < a" by simp
  have ahi: "a \<le> 2 ^ 53"
  proof -
    have "(of_int \<bar>n\<bar> :: rat) \<le> of_int (2 ^ 53)" using assms by (simp only: of_int_le_iff)
    then show ?thesis by (simp add: a_def)
  qed
  have lo: "pow2 e \<le> a" unfolding e_def by (rule ilog2_lower[OF a0])
  have hi: "a < pow2 (e + 1)" unfolding e_def by (rule ilog2_upper[OF a0])
  have e0: "0 \<le> e"
  proof (rule ccontr)
    assume "\<not> 0 \<le> e"
    then have "e + 1 \<le> 0" by simp
    then have "pow2 (e + 1) \<le> pow2 0" by (rule pow2_mono)
    with hi a1 show False by (simp add: pow2_def)
  qed
  have e53: "e \<le> 53"
  proof (rule ccontr)
    assume "\<not> e \<le> 53"
    then have "54 \<le> e" by simp
    then have "pow2 54 \<le> pow2 e" by (rule pow2_mono)
    with lo ahi show False by (simp add: pow2_def)
  qed
  have int_quot: "\<exists>k::int. a / u = of_int k"
  proof (cases "e \<le> 52")
    case True
    then have "u = 1 / 2 ^ nat (52 - e)" by (auto simp: u_def pow2_def)
    then have "a / u = of_int (\<bar>n\<bar> * 2 ^ nat (52 - e))" by (simp add: a_def)
    then show ?thesis by blast
  next
    case False
    with e53 have e: "e = 53" by simp
    then have "a = 2 ^ 53" using lo ahi by (simp add: pow2_def)
    moreover have "u = 2" using e by (simp add: u_def pow2_def)
    ultimately have "a / u = of_int (2 ^ 52)" by simp
    then show ?thesis by blast
  qed
  then obtain k :: int where k: "a / u = of_int k" by blast
  have u0: "0 < u" by (simp add: u_def pow2_pos)
  have "to_double (of_int n) = sgn (of_int n) * of_int (round_half_even (a / u)) * u"
    using False by (simp add: to_double_def Let_def a_def u_def e_def)
  also have "\<dots> = sgn (of_int n) * (a / u) * u"
    by (simp add: k round_half_even_of_int)
  also have "\<dots> = sgn (of_int n) * a" using u0 by simp
  also have "\<dots> = of_int n" by (simp add: a_def sgn_mult_abs)
  finally show ?thesis .
qed

lemma js_add_of_int:
  assumes "\<bar>m + n\<bar> \<le> 2 ^ 53"
  shows "js_add (of_int m) (of_int n) = of_int (m + n)"
  using to_double_of_int[OF assms] by (simp add: js_add_def)

text \<open>Three evaluations: two sums of whole amounts, and one bed of two occupied.\<close>

lemma js_add_examples:
  "js_add 0 5000 = 5000" "js_add 5000 3500 = 8500"
  "Math_round (js_mul (js_div 1 2) 100) = Num 50"
  by code_simp+

text \<open>
  The quotient 29/200 is not a double; its double times 100 falls just below 14.5, and
  \<^verbatim>\<open>Math.round\<close> gives 14.
\<close>

lemma occupancy_tie_29_of_200: "Math_round (js_mul (js_div 29 200) 100) = Num 14"
  by code_simp

subsection \<open>Tenant scope guard\<close>

text \<open>
  Where the row carries a tenant id, the guard denies exactly the principals that are not
  SUPER_ADMIN and whose \<^verbatim>\<open>hospitalId\<close> is not that id.
\<close>

lemma assignBed_403_iff:
  assumes "map_of (admissions s) id' = Some a" and "bid \<noteq> []"
    and "\<not> fails AdmissionFindUnique"
  shows "status_of (assignBed fails (Some u) meta id' (Some bid) s) = Some 403 \<longleftrightarrow>
           hospital_access_denied u (Some (adm_hospitalId a))"
  using assms
  by (auto simp: assignBed_def io_defs admission_findUnique_def bed_findUnique_def
        bed_update_def transaction_def createAuditLog_case status_of_def
        split: option.splits if_splits)

text \<open>
  C1 does not hold of the code: where both tenant ids are absent the guard does not fail
  closed. The administrator without a hospital is not SUPER_ADMIN, the bootstrap
  administrator's row has no \<^verbatim>\<open>hospitalId\<close>, and the guard of \<^verbatim>\<open>getUserById\<close>,
  \<^verbatim>\<open>role !== 'SUPER_ADMIN' && existingUser.hospitalId !== req.user.hospitalId\<close>, lets
  the request through, since \<^verbatim>\<open>null !== null\<close> is false: the handler answers 200 with
  the row of another tenant's administrator. The comment on that guard reads "ADMIN can
  only view users from their hospital", and the guards of the lab, prescription and
  consultation handlers, which compare against \<^verbatim>\<open>(visit?.hospitalId || "")\<close>, deny
  the same principal.
\<close>

theorem tenant_guard_absent_tenant_granted:
  "\<not> hospital_access_denied unassigned_admin None \<and>
   role unassigned_admin \<noteq> ''SUPER_ADMIN'' \<and>
   map_option usr_hospitalId (find_user ''u0'' (users platform_db)) = Some None \<and>
   getUserById nofail (Some unassigned_admin) ''u0'' platform_db =
     Returns (200, Json (selected root_user)) platform_db"
  by (simp add: hospital_access_denied_def unassigned_admin_def getUserById_def io_defs
      platform_db_def empty_db_def root_user_def find_user_def nofail_def selected_def)

subsection \<open>Bed assignment and the transaction\<close>

text \<open>
  C2 does not hold of the code. Admission a1 holds bed b1 and asks for the free bed b2;
  the release of b1 succeeds and the transaction that follows is rejected. The handler
  answers 500 and the store keeps the release alone: b1 is AVAILABLE with no current
  admission, b2 is still AVAILABLE, and a1 still references b1 and is still ADMITTED.
\<close>

theorem assignBed_release_outside_transaction:
  "map_option adm_bedId (map_of (admissions clinic_db1) ''a1'') = Some (Some ''b1'') \<and>
   map_option bed_status (map_of (beds clinic_db1) ''b1'') = Some ''OCCUPIED'' \<and>
   map_option bed_status (map_of (beds clinic_db1) ''b2'') = Some ''AVAILABLE'' \<and>
   assignBed (\<lambda>c. c = Transaction) (Some ward_manager) meta0 ''a1'' (Some ''b2'') clinic_db1 =
     Returns (500, Error ''Failed to assign bed'')
       (clinic_db1\<lparr>beds := [(''b1'', free_bed), (''b2'', free_bed)],
                 console := [''Assign bed error:'']\<rparr>) \<and>
   admissions (clinic_db1\<lparr>beds := [(''b1'', free_bed), (''b2'', free_bed)],
                 console := [''Assign bed error:'']\<rparr>) =
     [(''a1'', admitted_to ''b1'' free_bed ''u1'' (pending ''p1'')), (''a2'', pending ''p2'')]"
  by (simp add: clinic_db1_def clinic_db_def empty_db_def free_bed_def pending_def ward_manager_def
      meta0_def nofail_def store_of_def
      assignBed_def io_defs admission_findUnique_def bed_findUnique_def
      hospital_access_denied_def bed_update_def bed_update_op_def admission_update_op_def
      transaction_def released_def occupied_by_def admitted_to_def
      createAuditLog_def json_roundtrip_def auditLog_create_def)

text \<open>
  The sibling handler keeps its release inside the transaction: whenever
  \<^verbatim>\<open>dischargePatient\<close> answers anything but 200, the tables are as they were.
\<close>

lemma dischargePatient_failure_writes_nothing:
  "\<exists>c r s'. dischargePatient fails user meta now aid notes summary s = Returns (c, r) s' \<and>
     (c \<noteq> 200 \<longrightarrow> s'\<lparr>console := console s\<rparr> = s)"
  by (auto simp: dischargePatient_def io_defs admission_findUnique_def transaction_def
        createAuditLog_case
      split: option.splits)

subsection \<open>Audit recorder\<close>

text \<open>
  C3. \<^verbatim>\<open>createAuditLog\<close> returns normally on every input and in every store, also
  when the append to the audit table throws or the details cannot be serialised: then
  the failure is written to the console and nothing else changes; otherwise exactly one
  row is appended. So whatever a handler does after awaiting it is done in either case.
\<close>

theorem createAuditLog_never_throws:
  "createAuditLog fails data s =
     Returns ()
       (if ad_details data = Some Cyclic \<or> fails AuditLogCreate
        then s\<lparr>console := console s @ [''Failed to create audit log:'']\<rparr>
        else s\<lparr>auditLogs := auditLogs s @
               [\<lparr>al_userId = ad_userId data,
                 al_hospitalId = ad_hospitalId data,
                 al_action = ad_action data,
                 al_entity = ad_entity data,
                 al_entityId = ad_entityId data,
                 al_details = (case ad_details data of Some (Plain j) \<Rightarrow> Some j | _ \<Rightarrow> None),
                 al_ipAddress = ad_ipAddress data,
                 al_userAgent = ad_userAgent data\<rparr>]\<rparr>) \<and>
   await (createAuditLog fails data) rest s =
     rest () (store_of (createAuditLog fails data s))"
proof (rule conjI)
  show "createAuditLog fails data s =
     Returns ()
       (if ad_details data = Some Cyclic \<or> fails AuditLogCreate
        then s\<lparr>console := console s @ [''Failed to create audit log:'']\<rparr>
        else s\<lparr>auditLogs := auditLogs s @
               [\<lparr>al_userId = ad_userId data,
                 al_hospitalId = ad_hospitalId data,
                 al_action = ad_action data,
                 al_entity = ad_entity data,
                 al_entityId = ad_entityId data,
                 al_details = (case ad_details data of Some (Plain j) \<Rightarrow> Some j | _ \<Rightarrow> None),
                 al_ipAddress = ad_ipAddress data,
                 al_userAgent = ad_userAgent data\<rparr>]\<rparr>)"
    by (cases "ad_details data"; cases "fails AuditLogCreate")
       (auto simp: createAuditLog_def try_catch_def await_def send_def json_roundtrip_def
          auditLog_create_def console_error_def split: js_value.splits)
  show "await (createAuditLog fails data) rest s =
          rest () (store_of (createAuditLog fails data s))"
    by (simp add: await_def createAuditLog_case)
qed

subsection \<open>Payment application\<close>





subsection \<open>Stock adjustment\<close>

lemma to_double_negative:
  assumes "q < 0"
  shows "to_double q < 0"
proof -
  have "\<bar>q\<bar> / 2 ^ 53 < \<bar>q\<bar>" using assms by (simp add: field_simps)
  then show ?thesis using to_double_error[of q] assms by linarith
qed

lemma writeStock_ok:
  assumes "map_of (inventoryItems s) k = Some i" and "\<not> fails InventoryItemUpdate"
    and "storable n"
  shows "\<exists>s'. writeStock fails storable u meta k i0 ty adj (SNum n) s =
                 Returns (200, Json (i\<lparr>item_stock := n\<rparr>)) s' \<and>
           map_of (inventoryItems s') k = Some (i\<lparr>item_stock := n\<rparr>)"
  using assms
  by (simp add: writeStock_def createAuditLog_case createAuditLog_preserves send_def
        await_def inventoryItem_update_def map_of_update_row)

lemma writeStock_rejected:
  assumes "\<not> storable n"
  shows "writeStock fails storable u meta k i0 ty adj (SNum n) s = Throws s"
  using assms by (simp add: writeStock_def await_def inventoryItem_update_def)

lemma updateStock_SET:
  assumes "map_of (inventoryItems s) k = Some i"
    and "\<not> hospital_access_denied u (Some (item_hospitalId i))"
    and "\<not> fails InventoryItemFindUnique" and "\<not> fails InventoryItemUpdate"
    and "storable x"
  shows "\<exists>s'. updateStock fails storable coerce (Some u) meta k (Some (JNum x))
                 (Some (JStr ''SET'')) s =
                 Returns (200, Json (i\<lparr>item_stock := x\<rparr>)) s' \<and>
           map_of (inventoryItems s') k = Some (i\<lparr>item_stock := x\<rparr>)"
proof -
  from assms writeStock_ok[where s = s and k = k and i = i and fails = fails
      and storable = storable and n = x and u = u and meta = meta and ?i0.0 = i
      and ty = "JStr ''SET''" and adj = "JNum x"]
  obtain s' where "writeStock fails storable u meta k i (JStr ''SET'') (JNum x) (SNum x) s =
        Returns (200, Json (i\<lparr>item_stock := x\<rparr>)) s'"
    and "map_of (inventoryItems s') k = Some (i\<lparr>item_stock := x\<rparr>)" by auto
  then show ?thesis using assms
    by (simp add: updateStock_def io_defs inventoryItem_findUnique_def truthy_json_def)
qed

lemma updateStock_ADD:
  assumes "map_of (inventoryItems s) k = Some i"
    and "\<not> hospital_access_denied u (Some (item_hospitalId i))"
    and "\<not> fails InventoryItemFindUnique" and "\<not> fails InventoryItemUpdate"
    and "storable (js_add (item_stock i) y)"
  shows "\<exists>s'. updateStock fails storable coerce (Some u) meta k (Some (JNum y))
                 (Some (JStr ''ADD'')) s =
                 Returns (200, Json (i\<lparr>item_stock := js_add (item_stock i) y\<rparr>)) s' \<and>
           map_of (inventoryItems s') k = Some (i\<lparr>item_stock := js_add (item_stock i) y\<rparr>)"
proof -
  from assms writeStock_ok[where s = s and k = k and i = i and fails = fails
      and storable = storable and n = "js_add (item_stock i) y" and u = u and meta = meta
      and ?i0.0 = i and ty = "JStr ''ADD''" and adj = "JNum y"]
  obtain s' where "writeStock fails storable u meta k i (JStr ''ADD'') (JNum y)
                     (SNum (js_add (item_stock i) y)) s =
        Returns (200, Json (i\<lparr>item_stock := js_add (item_stock i) y\<rparr>)) s'"
    and "map_of (inventoryItems s') k = Some (i\<lparr>item_stock := js_add (item_stock i) y\<rparr>)"
    by auto
  then show ?thesis using assms
    by (simp add: updateStock_def io_defs inventoryItem_findUnique_def truthy_json_def
          plus_assign_def)
qed

lemma updateStock_ADD_rejected:
  assumes "map_of (inventoryItems s) k = Some i"
    and "\<not> hospital_access_denied u (Some (item_hospitalId i))"
    and "\<not> fails InventoryItemFindUnique"
    and "\<not> storable (js_add (item_stock i) y)"
  shows "updateStock fails storable coerce (Some u) meta k (Some (JNum y))
           (Some (JStr ''ADD'')) s =
           Returns (500, Error ''Failed to update stock'')
             (s\<lparr>console := console s @ [''Update stock error:'']\<rparr>)"
  using assms writeStock_rejected[where storable = storable and n = "js_add (item_stock i) y"
      and fails = fails and u = u and meta = meta and k = k and ?i0.0 = i
      and ty = "JStr ''ADD''" and adj = "JNum y" and s = s]
  by (simp add: updateStock_def io_defs inventoryItem_findUnique_def truthy_json_def
        plus_assign_def)

lemma updateStock_SUBTRACT_insufficient:
  assumes "map_of (inventoryItems s) k = Some i"
    and "\<not> hospital_access_denied u (Some (item_hospitalId i))"
    and "\<not> fails InventoryItemFindUnique"
    and "item_stock i < adj"
  shows "updateStock fails storable coerce (Some u) meta k (Some (JNum adj))
           (Some (JStr ''SUBTRACT'')) s =
           Returns (400, Error ''Insufficient stock'') s"
proof -
  have "js_sub (item_stock i) adj < 0"
    using assms(4) by (simp add: js_sub_def to_double_negative)
  then show ?thesis using assms
    by (simp add: updateStock_def io_defs inventoryItem_findUnique_def truthy_json_def
          minus_assign_def to_number_def)
qed

lemma js_add_11_pow53: "js_add 11 (2 ^ 53) = 9007199254741004"
  by code_simp

text \<open>
  C5, as stated, fails where the sum is not a double or not a value of the column. On the
  item with 10 units, \<^verbatim>\<open>SET\<close> 11 and then \<^verbatim>\<open>ADD\<close> \<open>2 ^ 53\<close> both answer 200 on a
  \<^verbatim>\<open>Float\<close> column and leave the stock at 9007199254741004, one more than the sum; on
  an \<^verbatim>\<open>Int\<close> column the \<^verbatim>\<open>ADD\<close> answers 500 and the stock stays 11.
\<close>

theorem updateStock_add_not_the_sum:
  "status_of (updateStock nofail float_column no_text (Some pharmacist) meta0 ''i1''
                (Some (JNum 11)) (Some (JStr ''SET'')) clinic_db) = Some 200 \<and>
   status_of (updateStock nofail float_column no_text (Some pharmacist) meta0 ''i1''
                (Some (JNum (2 ^ 53))) (Some (JStr ''ADD''))
                (store_of (updateStock nofail float_column no_text (Some pharmacist) meta0 ''i1''
                             (Some (JNum 11)) (Some (JStr ''SET'')) clinic_db))) = Some 200 \<and>
   map_option item_stock
     (map_of (inventoryItems
        (store_of (updateStock nofail float_column no_text (Some pharmacist) meta0 ''i1''
                     (Some (JNum (2 ^ 53))) (Some (JStr ''ADD''))
                     (store_of (updateStock nofail float_column no_text (Some pharmacist) meta0
                                  ''i1'' (Some (JNum 11)) (Some (JStr ''SET'')) clinic_db)))))
        ''i1'') = Some 9007199254741004 \<and>
   (11 + 2 ^ 53 :: rat) = 9007199254741003 \<and>
   status_of (updateStock nofail int_column no_text (Some pharmacist) meta0 ''i1''
                (Some (JNum 11)) (Some (JStr ''SET'')) clinic_db) = Some 200 \<and>
   status_of (updateStock nofail int_column no_text (Some pharmacist) meta0 ''i1''
                (Some (JNum (2 ^ 53))) (Some (JStr ''ADD''))
                (store_of (updateStock nofail int_column no_text (Some pharmacist) meta0 ''i1''
                             (Some (JNum 11)) (Some (JStr ''SET'')) clinic_db))) = Some 500 \<and>
   map_option item_stock
     (map_of (inventoryItems
        (store_of (updateStock nofail int_column no_text (Some pharmacist) meta0 ''i1''
                     (Some (JNum (2 ^ 53))) (Some (JStr ''ADD''))
                     (store_of (updateStock nofail int_column no_text (Some pharmacist) meta0
                                  ''i1'' (Some (JNum 11)) (Some (JStr ''SET'')) clinic_db)))))
        ''i1'') = Some 11"
proof -
  have row: "map_of (inventoryItems clinic_db) ''i1'' = Some paracetamol"
    by (simp add: clinic_db_def empty_db_def)
  have acc: "\<not> hospital_access_denied pharmacist (Some (item_hospitalId paracetamol))"
    "\<not> hospital_access_denied pharmacist (Some (item_hospitalId (paracetamol\<lparr>item_stock := 11\<rparr>)))"
    by (simp_all add: hospital_access_denied_def pharmacist_def paracetamol_def)
  have nf: "\<not> nofail InventoryItemFindUnique" "\<not> nofail InventoryItemUpdate"
    by (simp_all add: nofail_def)
  have big: "\<not> int_column 9007199254741004" by (simp add: int_column_def)
  have small: "int_column 11" by (simp add: int_column_def)
  from row acc(1) nf updateStock_SET[where s = clinic_db and k = "''i1''" and i = paracetamol
      and u = pharmacist and fails = nofail and storable = float_column and x = 11
      and coerce = no_text and meta = meta0]
  obtain s1 where f1: "updateStock nofail float_column no_text (Some pharmacist) meta0 ''i1''
        (Some (JNum 11)) (Some (JStr ''SET'')) clinic_db =
        Returns (200, Json (paracetamol\<lparr>item_stock := 11\<rparr>)) s1"
    and m1: "map_of (inventoryItems s1) ''i1'' = Some (paracetamol\<lparr>item_stock := 11\<rparr>)"
    by (auto simp: float_column_def)
  from m1 acc(2) nf updateStock_ADD[where s = s1 and k = "''i1''"
      and i = "paracetamol\<lparr>item_stock := 11\<rparr>" and u = pharmacist and fails = nofail
      and storable = float_column and y = "2 ^ 53" and coerce = no_text and meta = meta0]
  obtain s2 where f2: "updateStock nofail float_column no_text (Some pharmacist) meta0 ''i1''
        (Some (JNum (2 ^ 53))) (Some (JStr ''ADD'')) s1 =
        Returns (200, Json (paracetamol\<lparr>item_stock := 9007199254741004\<rparr>)) s2"
    and m2: "map_of (inventoryItems s2) ''i1'' =
               Some (paracetamol\<lparr>item_stock := 9007199254741004\<rparr>)"
    using js_add_11_pow53 by (auto simp: float_column_def)
  from row acc(1) nf small updateStock_SET[where s = clinic_db and k = "''i1''"
      and i = paracetamol and u = pharmacist and fails = nofail and storable = int_column
      and x = 11 and coerce = no_text and meta = meta0]
  obtain t1 where g1: "updateStock nofail int_column no_text (Some pharmacist) meta0 ''i1''
        (Some (JNum 11)) (Some (JStr ''SET'')) clinic_db =
        Returns (200, Json (paracetamol\<lparr>item_stock := 11\<rparr>)) t1"
    and n1: "map_of (inventoryItems t1) ''i1'' = Some (paracetamol\<lparr>item_stock := 11\<rparr>)"
    by auto
  have g2: "updateStock nofail int_column no_text (Some pharmacist) meta0 ''i1''
        (Some (JNum (2 ^ 53))) (Some (JStr ''ADD'')) t1 =
        Returns (500, Error ''Failed to update stock'')
          (t1\<lparr>console := console t1 @ [''Update stock error:'']\<rparr>)"
    using n1 acc(2) nf(1) big js_add_11_pow53
      updateStock_ADD_rejected[where s = t1 and k = "''i1''"
        and i = "paracetamol\<lparr>item_stock := 11\<rparr>" and u = pharmacist and fails = nofail
        and storable = int_column and y = "2 ^ 53" and coerce = no_text and meta = meta0]
    by simp
  show ?thesis
    using f1 f2 m2 g1 g2 n1 by (simp add: status_of_def store_of_def)
qed

text \<open>
  C5, amended. For an item the principal may access, with the read and the update of the
  item not rejected, and numbers \<open>x\<close> and \<open>y\<close> in the request body: \<^verbatim>\<open>SET\<close> with \<open>x\<close>,
  a value of the column, answers 200 and leaves the stock at \<open>x\<close>; \<^verbatim>\<open>ADD\<close> with \<open>y\<close>
  on the store so reached answers 200 and leaves the stock at the JavaScript sum of \<open>x\<close>
  and \<open>y\<close> when that is a value of the column, and answers 500 leaving the stock at \<open>x\<close>
  when it is not. The JavaScript sum is \<open>x + y\<close> for integers whose sum is at most
  \<open>2 ^ 53\<close> in absolute value. \<^verbatim>\<open>SUBTRACT\<close> with a number above the current stock
  answers 400 "Insufficient stock" and returns the store as it was.
\<close>

theorem updateStock_semantics:
  assumes "map_of (inventoryItems s) k = Some i"
    and "\<not> hospital_access_denied u (Some (item_hospitalId i))"
    and "\<not> fails InventoryItemFindUnique" and "\<not> fails InventoryItemUpdate"
    and "storable x"
  shows "(\<exists>s1.
            updateStock fails storable coerce (Some u) meta k (Some (JNum x))
              (Some (JStr ''SET'')) s =
              Returns (200, Json (i\<lparr>item_stock := x\<rparr>)) s1 \<and>
            map_of (inventoryItems s1) k = Some (i\<lparr>item_stock := x\<rparr>) \<and>
            (storable (js_add x y) \<longrightarrow>
               (\<exists>s2. updateStock fails storable coerce (Some u) meta k (Some (JNum y))
                        (Some (JStr ''ADD'')) s1 =
                        Returns (200, Json (i\<lparr>item_stock := js_add x y\<rparr>)) s2 \<and>
                      map_of (inventoryItems s2) k = Some (i\<lparr>item_stock := js_add x y\<rparr>))) \<and>
            (\<not> storable (js_add x y) \<longrightarrow>
               status_of (updateStock fails storable coerce (Some u) meta k (Some (JNum y))
                            (Some (JStr ''ADD'')) s1) = Some 500 \<and>
               inventoryItems (store_of (updateStock fails storable coerce (Some u) meta k
                                           (Some (JNum y)) (Some (JStr ''ADD'')) s1)) =
                 inventoryItems s1)) \<and>
         (x = of_int m \<and> y = of_int n \<and> \<bar>m + n\<bar> \<le> 2 ^ 53 \<longrightarrow> js_add x y = x + y) \<and>
         (item_stock i < adj \<longrightarrow>
            updateStock fails storable coerce (Some u) meta k (Some (JNum adj))
              (Some (JStr ''SUBTRACT'')) s =
              Returns (400, Error ''Insufficient stock'') s)"
proof (intro conjI impI)
  from assms updateStock_SET[where s = s and k = k and i = i and u = u and fails = fails
      and storable = storable and x = x and coerce = coerce and meta = meta]
  obtain s1 where set: "updateStock fails storable coerce (Some u) meta k (Some (JNum x))
        (Some (JStr ''SET'')) s = Returns (200, Json (i\<lparr>item_stock := x\<rparr>)) s1"
    and m1: "map_of (inventoryItems s1) k = Some (i\<lparr>item_stock := x\<rparr>)" by auto
  have acc: "\<not> hospital_access_denied u (Some (item_hospitalId (i\<lparr>item_stock := x\<rparr>)))"
    using assms(2) by simp
  have add: "\<exists>s2. updateStock fails storable coerce (Some u) meta k (Some (JNum y))
                        (Some (JStr ''ADD'')) s1 =
                        Returns (200, Json (i\<lparr>item_stock := js_add x y\<rparr>)) s2 \<and>
                      map_of (inventoryItems s2) k = Some (i\<lparr>item_stock := js_add x y\<rparr>)"
    if "storable (js_add x y)"
    using m1 acc assms(3) assms(4) that
      updateStock_ADD[where s = s1 and k = k and i = "i\<lparr>item_stock := x\<rparr>" and u = u
        and fails = fails and storable = storable and y = y and coerce = coerce and meta = meta]
    by simp
  have rej: "status_of (updateStock fails storable coerce (Some u) meta k (Some (JNum y))
                            (Some (JStr ''ADD'')) s1) = Some 500 \<and>
               inventoryItems (store_of (updateStock fails storable coerce (Some u) meta k
                                           (Some (JNum y)) (Some (JStr ''ADD'')) s1)) =
                 inventoryItems s1"
    if "\<not> storable (js_add x y)"
    using m1 acc assms(3) that
      updateStock_ADD_rejected[where s = s1 and k = k and i = "i\<lparr>item_stock := x\<rparr>"
        and u = u and fails = fails and storable = storable and y = y and coerce = coerce
        and meta = meta]
    by (simp add: status_of_def store_of_def)
  show "\<exists>s1.
            updateStock fails storable coerce (Some u) meta k (Some (JNum x))
              (Some (JStr ''SET'')) s =
              Returns (200, Json (i\<lparr>item_stock := x\<rparr>)) s1 \<and>
            map_of (inventoryItems s1) k = Some (i\<lparr>item_stock := x\<rparr>) \<and>
            (storable (js_add x y) \<longrightarrow>
               (\<exists>s2. updateStock fails storable coerce (Some u) meta k (Some (JNum y))
                        (Some (JStr ''ADD'')) s1 =
                        Returns (200, Json (i\<lparr>item_stock := js_add x y\<rparr>)) s2 \<and>
                      map_of (inventoryItems s2) k = Some (i\<lparr>item_stock := js_add x y\<rparr>))) \<and>
            (\<not> storable (js_add x y) \<longrightarrow>
               status_of (updateStock fails storable coerce (Some u) meta k (Some (JNum y))
                            (Some (JStr ''ADD'')) s1) = Some 500 \<and>
               inventoryItems (store_of (updateStock fails storable coerce (Some u) meta k
                                           (Some (JNum y)) (Some (JStr ''ADD'')) s1)) =
                 inventoryItems s1)"
    using set m1 add rej by blast
next
  assume "x = of_int m \<and> y = of_int n \<and> \<bar>m + n\<bar> \<le> 2 ^ 53"
  then show "js_add x y = x + y" using js_add_of_int[of m n] by simp
next
  assume "item_stock i < adj"
  then show "updateStock fails storable coerce (Some u) meta k (Some (JNum adj))
              (Some (JStr ''SUBTRACT'')) s =
              Returns (400, Error ''Insufficient stock'') s"
    using assms(1) assms(2) assms(3)
      updateStock_SUBTRACT_insufficient[where s = s and k = k and i = i and u = u
        and fails = fails and adj = adj and storable = storable and coerce = coerce
        and meta = meta]
    by simp
qed

text \<open>
  C5, amended, at the item with 10 units on an \<^verbatim>\<open>Int\<close> column: SET 40 then ADD 2,
  SET 40 then ADD \<open>2 ^ 31\<close>, and SUBTRACT 11.
\<close>

theorem updateStock_semantics_witness:
  "map_of (inventoryItems clinic_db) ''i1'' = Some paracetamol \<and>
   \<not> hospital_access_denied pharmacist (Some (item_hospitalId paracetamol)) \<and>
   int_column 40 \<and>
   (\<exists>s1.
      updateStock nofail int_column no_text (Some pharmacist) meta0 ''i1'' (Some (JNum 40))
        (Some (JStr ''SET'')) clinic_db =
        Returns (200, Json (paracetamol\<lparr>item_stock := 40\<rparr>)) s1 \<and>
      map_of (inventoryItems s1) ''i1'' = Some (paracetamol\<lparr>item_stock := 40\<rparr>) \<and>
      (\<exists>s2. updateStock nofail int_column no_text (Some pharmacist) meta0 ''i1'' (Some (JNum 2))
               (Some (JStr ''ADD'')) s1 =
               Returns (200, Json (paracetamol\<lparr>item_stock := 42\<rparr>)) s2 \<and>
             map_of (inventoryItems s2) ''i1'' = Some (paracetamol\<lparr>item_stock := 42\<rparr>))) \<and>
   (\<exists>s1.
      updateStock nofail int_column no_text (Some pharmacist) meta0 ''i1'' (Some (JNum 40))
        (Some (JStr ''SET'')) clinic_db =
        Returns (200, Json (paracetamol\<lparr>item_stock := 40\<rparr>)) s1 \<and>
      status_of (updateStock nofail int_column no_text (Some pharmacist) meta0 ''i1''
                   (Some (JNum (2 ^ 31))) (Some (JStr ''ADD'')) s1) = Some 500 \<and>
      inventoryItems (store_of (updateStock nofail int_column no_text (Some pharmacist) meta0
                                  ''i1'' (Some (JNum (2 ^ 31))) (Some (JStr ''ADD'')) s1)) =
        inventoryItems s1) \<and>
   js_add 40 2 = 42 \<and>
   item_stock paracetamol < 11 \<and>
   updateStock nofail int_column no_text (Some pharmacist) meta0 ''i1'' (Some (JNum 11))
     (Some (JStr ''SUBTRACT'')) clinic_db =
     Returns (400, Error ''Insufficient stock'') clinic_db"
proof -
  have row: "map_of (inventoryItems clinic_db) ''i1'' = Some paracetamol"
    by (simp add: clinic_db_def empty_db_def)
  have acc: "\<not> hospital_access_denied pharmacist (Some (item_hospitalId paracetamol))"
    by (simp add: hospital_access_denied_def pharmacist_def paracetamol_def)
  have nf: "\<not> nofail InventoryItemFindUnique" "\<not> nofail InventoryItemUpdate"
    by (simp_all add: nofail_def)
  have low: "item_stock paracetamol < 11" by (simp add: paracetamol_def)
  have col: "int_column 40" "int_column 42" "\<not> int_column 2147483688"
    by (simp_all add: int_column_def)
  have sums: "js_add 40 2 = 42" "js_add 40 (2 ^ 31) = 2147483688" by code_simp+
  note w1 = updateStock_semantics[where s = clinic_db and k = "''i1''" and i = paracetamol
      and u = pharmacist and fails = nofail and storable = int_column and x = 40 and y = 2
      and m = 40 and n = 2 and adj = 11 and coerce = no_text and meta = meta0]
  note w2 = updateStock_semantics[where s = clinic_db and k = "''i1''" and i = paracetamol
      and u = pharmacist and fails = nofail and storable = int_column and x = 40
      and y = "2 ^ 31" and m = 40 and n = 2 and adj = 11 and coerce = no_text and meta = meta0]
  show ?thesis using w1 w2 row acc nf low col sums by auto
qed

subsection \<open>Bootstrap\<close>







subsection \<open>Payment webhook\<close>

text \<open>
  C7. With a configured secret and a presented signature (both not empty): when the hash
  of the body under the secret differs from the signature, the webhook answers 401
  "Invalid signature"; when it is equal and the handling of the event throws, the
  handler logs the error and answers 200 \<^verbatim>\<open>{ received: true }\<close>.
\<close>

theorem webhook_signature_mismatch_or_processing_error:
  "(k \<noteq> [] \<and> sig \<noteq> [] \<and> hmac k body \<noteq> sig \<longrightarrow>
      webhook hmac (Some k) (Some sig) body =
        Some ((401, Json (Message ''Invalid signature'')), [''[Payment] Invalid webhook signature''])) \<and>
   (k \<noteq> [] \<and> sig \<noteq> [] \<and> hmac k body = sig \<and>
    get_prop (Some body) ''event'' = Some name \<and> handle_event body name = None \<longrightarrow>
      webhook hmac (Some k) (Some sig) body =
        Some ((200, Json (Received True)),
              [''[Payment] Webhook event:'', ''[Payment] Webhook processing error:'']))"
  by (simp add: webhook_def truthy_def)

text \<open>
  C7 at a forged signature, and at a verified charge event without data, where reading
  \<^verbatim>\<open>event.data.reference\<close> throws.
\<close>

theorem webhook_signature_mismatch_or_processing_error_witness:
  "toy_hmac ''whsec'' charge_without_data \<noteq> ''forged'' \<and>
   webhook toy_hmac (Some ''whsec'') (Some ''forged'') charge_without_data =
     Some ((401, Json (Message ''Invalid signature'')), [''[Payment] Invalid webhook signature'']) \<and>
   toy_hmac ''whsec'' charge_without_data = ''mac:whsec'' \<and>
   get_prop (Some charge_without_data) ''event'' = Some (Some (JStr ''charge.success'')) \<and>
   handle_event charge_without_data (Some (JStr ''charge.success'')) = None \<and>
   webhook toy_hmac (Some ''whsec'') (Some ''mac:whsec'') charge_without_data =
     Some ((200, Json (Received True)),
           [''[Payment] Webhook event:'', ''[Payment] Webhook processing error:''])"
proof -
  have h: "toy_hmac ''whsec'' charge_without_data \<noteq> ''forged''"
    "toy_hmac ''whsec'' charge_without_data = ''mac:whsec''"
    by (simp_all add: toy_hmac_def)
  have ev: "get_prop (Some charge_without_data) ''event'' = Some (Some (JStr ''charge.success''))"
    by (simp add: get_prop_def charge_without_data_def)
  have thr: "handle_event charge_without_data (Some (JStr ''charge.success'')) = None"
    by (simp add: handle_event_def log_reference_def get_prop_def charge_without_data_def)
  note w1 = webhook_signature_mismatch_or_processing_error[where hmac = toy_hmac
      and k = "''whsec''" and sig = "''forged''" and body = charge_without_data]
  note w2 = webhook_signature_mismatch_or_processing_error[where hmac = toy_hmac
      and k = "''whsec''" and sig = "''mac:whsec''" and body = charge_without_data
      and name = "Some (JStr ''charge.success'')"]
  show ?thesis using w1 w2 h ev thr by simp
qed




subsection \<open>Bed exclusivity\<close>

text \<open>
  C9, as stated, fails: the code keeps no invariant that a bed is referenced by at most
  one active admission. Admission a1 is given bed b1; a ward manager sets the status of
  b1 back to AVAILABLE through \<^verbatim>\<open>updateBedStatus\<close>, which checks nothing but the
  tenant; admission a2 is then given b1. All three requests answer 200, and both
  admissions are ADMITTED and reference b1.
\<close>

theorem bed_shared_after_status_reset:
  "status_of (assignBed nofail (Some ward_manager) meta0 ''a1'' (Some ''b1'') clinic_db) = Some 200 \<and>
   holders ''b1'' clinic_db1 = [''a1''] \<and>
   status_of (updateBedStatus nofail (Some ward_manager) meta0 ''b1'' (Some ''AVAILABLE'') clinic_db1)
     = Some 200 \<and>
   status_of (assignBed nofail (Some ward_manager) meta0 ''a2'' (Some ''b1'')
     (store_of (updateBedStatus nofail (Some ward_manager) meta0 ''b1'' (Some ''AVAILABLE'')
        clinic_db1))) = Some 200 \<and>
   holders ''b1''
     (store_of (assignBed nofail (Some ward_manager) meta0 ''a2'' (Some ''b1'')
        (store_of (updateBedStatus nofail (Some ward_manager) meta0 ''b1'' (Some ''AVAILABLE'')
           clinic_db1)))) = [''a1'', ''a2'']"
  by (simp add: clinic_db1_def clinic_db_def empty_db_def free_bed_def pending_def ward_manager_def
      meta0_def nofail_def store_of_def status_of_def holders_def
      assignBed_def updateBedStatus_def io_defs admission_findUnique_def bed_findUnique_def
      hospital_access_denied_def bed_update_def bed_update_op_def admission_update_op_def
      transaction_def released_def occupied_by_def admitted_to_def
      createAuditLog_def json_roundtrip_def auditLog_create_def)

lemma assignBed_unavailable_general:
  assumes "map_of (beds s) bid = Some b" and "bed_status b \<noteq> ''AVAILABLE''"
  shows "\<exists>c msg s'. assignBed fails user meta aid (Some bid) s = Returns (c, Error msg) s' \<and>
            c \<noteq> 200 \<and> s'\<lparr>console := console s\<rparr> = s"
  using assms
  by (auto simp: assignBed_def io_defs admission_findUnique_def bed_findUnique_def
      split: option.splits)

lemma assignBed_unavailable_400:
  assumes "map_of (beds s) bid = Some b" and "bed_status b \<noteq> ''AVAILABLE''"
    and "bid \<noteq> []"
    and "map_of (admissions s) aid = Some a"
    and "\<not> hospital_access_denied u (Some (adm_hospitalId a))"
    and "bed_room_ward_hospitalId b = adm_hospitalId a"
    and "\<not> fails AdmissionFindUnique" and "\<not> fails BedFindUnique"
  shows "assignBed fails (Some u) meta aid (Some bid) s =
           Returns (400, Error ''Bed is not available'') s"
  using assms
  by (simp add: assignBed_def io_defs admission_findUnique_def bed_findUnique_def)

lemma assignBed_success_occupies:
  assumes "assignBed fails user meta aid (Some bid) s = Returns (200, r) s'"
  shows "\<exists>b. map_of (beds s') bid = Some b \<and> bed_status b = ''OCCUPIED''"
  using assms
  by (auto simp: assignBed_def io_defs admission_findUnique_def bed_findUnique_def
        bed_update_def bed_update_op_def admission_update_op_def transaction_def
        map_of_update_row occupied_by_def createAuditLog_case createAuditLog_preserves
      split: option.splits if_splits)

text \<open>
  C9, amended. Exclusivity rests on the status of the bed alone. \<^verbatim>\<open>assignBed\<close> on a
  bed whose status is not AVAILABLE is rejected before any write: whatever the caller,
  the admission and the storage faults, the reply is an error and the tables are as they
  were; when the admission is found, accessible and of the bed's hospital, it is 400 "Bed
  is not available". So after bed B was assigned to an admission, assigning B again
  fails for as long as its status is not AVAILABLE.
\<close>

theorem assignBed_rejects_unavailable_bed:
  "(map_of (beds s) bid = Some b \<and> bed_status b \<noteq> ''AVAILABLE'' \<longrightarrow>
      (\<exists>c msg s'. assignBed fails user meta aid (Some bid) s = Returns (c, Error msg) s' \<and>
         c \<noteq> 200 \<and> s'\<lparr>console := console s\<rparr> = s)) \<and>
   (map_of (beds s) bid = Some b \<and> bed_status b \<noteq> ''AVAILABLE'' \<and> bid \<noteq> [] \<and>
    map_of (admissions s) aid = Some a \<and>
    \<not> hospital_access_denied u (Some (adm_hospitalId a)) \<and>
    bed_room_ward_hospitalId b = adm_hospitalId a \<and>
    \<not> fails AdmissionFindUnique \<and> \<not> fails BedFindUnique \<longrightarrow>
      assignBed fails (Some u) meta aid (Some bid) s =
        Returns (400, Error ''Bed is not available'') s) \<and>
   (assignBed fails' user' meta' aid' (Some bid) s = Returns (200, r) t \<longrightarrow>
      (\<exists>c msg s2. assignBed fails user meta aid (Some bid) t = Returns (c, Error msg) s2 \<and>
         c \<noteq> 200 \<and> s2\<lparr>console := console t\<rparr> = t))"
proof (intro conjI impI)
  assume "map_of (beds s) bid = Some b \<and> bed_status b \<noteq> ''AVAILABLE''"
  then show "\<exists>c msg s'. assignBed fails user meta aid (Some bid) s = Returns (c, Error msg) s' \<and>
         c \<noteq> 200 \<and> s'\<lparr>console := console s\<rparr> = s"
    using assignBed_unavailable_general by blast
next
  assume "map_of (beds s) bid = Some b \<and> bed_status b \<noteq> ''AVAILABLE'' \<and> bid \<noteq> [] \<and>
    map_of (admissions s) aid = Some a \<and>
    \<not> hospital_access_denied u (Some (adm_hospitalId a)) \<and>
    bed_room_ward_hospitalId b = adm_hospitalId a \<and>
    \<not> fails AdmissionFindUnique \<and> \<not> fails BedFindUnique"
  then show "assignBed fails (Some u) meta aid (Some bid) s =
        Returns (400, Error ''Bed is not available'') s"
    using assignBed_unavailable_400 by blast
next
  assume "assignBed fails' user' meta' aid' (Some bid) s = Returns (200, r) t"
  from assignBed_success_occupies[OF this]
  obtain b' where "map_of (beds t) bid = Some b'" and "bed_status b' = ''OCCUPIED''" by blast
  then have "map_of (beds t) bid = Some b'" and "bed_status b' \<noteq> ''AVAILABLE''" by simp_all
  then show "\<exists>c msg s2. assignBed fails user meta aid (Some bid) t = Returns (c, Error msg) s2 \<and>
         c \<noteq> 200 \<and> s2\<lparr>console := console t\<rparr> = t"
    by (rule assignBed_unavailable_general)
qed

text \<open>C9, amended, at bed b1 once admission a1 holds it.\<close>

theorem assignBed_rejects_unavailable_bed_witness:
  "map_of (beds clinic_db1) ''b1'' = Some (occupied_by ''p1'' ''a1'' free_bed) \<and>
   bed_status (occupied_by ''p1'' ''a1'' free_bed) \<noteq> ''AVAILABLE'' \<and>
   assignBed nofail (Some ward_manager) meta0 ''a1'' (Some ''b1'') clinic_db =
     Returns (200, Json (admitted_to ''b1'' free_bed ''u1'' (pending ''p1''))) clinic_db1 \<and>
   assignBed nofail (Some ward_manager) meta0 ''a2'' (Some ''b1'') clinic_db1 =
     Returns (400, Error ''Bed is not available'') clinic_db1 \<and>
   (\<exists>c msg s2. assignBed nofail (Some other_nurse) meta0 ''a2'' (Some ''b1'') clinic_db1 =
      Returns (c, Error msg) s2 \<and> c \<noteq> 200 \<and> s2\<lparr>console := console clinic_db1\<rparr> = clinic_db1)"
proof -
  have first: "assignBed nofail (Some ward_manager) meta0 ''a1'' (Some ''b1'') clinic_db =
     Returns (200, Json (admitted_to ''b1'' free_bed ''u1'' (pending ''p1''))) clinic_db1"
    by (simp add: clinic_db1_def clinic_db_def empty_db_def free_bed_def pending_def
        ward_manager_def meta0_def nofail_def store_of_def
        assignBed_def io_defs admission_findUnique_def bed_findUnique_def
        hospital_access_denied_def bed_update_def bed_update_op_def admission_update_op_def
        transaction_def released_def occupied_by_def admitted_to_def
        createAuditLog_def json_roundtrip_def auditLog_create_def)
  have b: "map_of (beds clinic_db1) ''b1'' = Some (occupied_by ''p1'' ''a1'' free_bed)"
    by (simp add: clinic_db1_def clinic_db_def empty_db_def free_bed_def pending_def
        ward_manager_def meta0_def nofail_def store_of_def
        assignBed_def io_defs admission_findUnique_def bed_findUnique_def
        hospital_access_denied_def bed_update_def bed_update_op_def admission_update_op_def
        transaction_def released_def occupied_by_def admitted_to_def
        createAuditLog_def json_roundtrip_def auditLog_create_def)
  have st: "bed_status (occupied_by ''p1'' ''a1'' free_bed) \<noteq> ''AVAILABLE''"
    by (simp add: occupied_by_def)
  have a2: "map_of (admissions clinic_db1) ''a2'' = Some (pending ''p2'')"
    by (simp add: clinic_db1_def clinic_db_def empty_db_def free_bed_def pending_def
        ward_manager_def meta0_def nofail_def store_of_def
        assignBed_def io_defs admission_findUnique_def bed_findUnique_def
        hospital_access_denied_def bed_update_def bed_update_op_def admission_update_op_def
        transaction_def released_def occupied_by_def admitted_to_def
        createAuditLog_def json_roundtrip_def auditLog_create_def)
  have acc: "\<not> hospital_access_denied ward_manager (Some (adm_hospitalId (pending ''p2'')))"
    "bed_room_ward_hospitalId (occupied_by ''p1'' ''a1'' free_bed) = adm_hospitalId (pending ''p2'')"
    "\<not> nofail AdmissionFindUnique" "\<not> nofail BedFindUnique" "''b1'' \<noteq> []"
    by (simp_all add: hospital_access_denied_def ward_manager_def pending_def occupied_by_def
        free_bed_def nofail_def)
  note r1 = assignBed_rejects_unavailable_bed[where s = clinic_db1 and bid = "''b1''"
      and b = "occupied_by ''p1'' ''a1'' free_bed" and aid = "''a2''" and a = "pending ''p2''"
      and u = ward_manager and fails = nofail and meta = meta0]
  note r2 = assignBed_rejects_unavailable_bed[where s = clinic_db and t = clinic_db1
      and bid = "''b1''" and fails' = nofail and user' = "Some ward_manager" and meta' = meta0
      and aid' = "''a1''" and r = "Json (admitted_to ''b1'' free_bed ''u1'' (pending ''p1''))"
      and fails = nofail and user = "Some other_nurse" and meta = meta0 and aid = "''a2''"]
  show ?thesis using r1 r2 first b st a2 acc by simp
qed

subsection \<open>Bed occupancy on the dashboard\<close>

lemma floor_half_near: "\<bar>of_int \<lfloor>x + 1 / 2\<rfloor> - x\<bar> \<le> (1 / 2 :: rat)"
proof -
  have "of_int \<lfloor>x + 1 / 2\<rfloor> \<le> x + 1 / 2" and "x + 1 / 2 < of_int \<lfloor>x + 1 / 2\<rfloor> + 1"
    by linarith+
  then show ?thesis by linarith
qed

lemma occupancy_bound:
  fixes occ tot :: nat
  assumes "0 < tot" and "occ \<le> tot"
  shows "\<exists>p::int. Math_round (js_mul (js_div (of_nat occ) (of_nat tot)) 100) = Num (of_int p) \<and>
           \<bar>of_int p - 100 * of_nat occ / of_nat tot\<bar> \<le> (1 / 2 + 1 / 2 ^ 45 :: rat) \<and>
           0 \<le> p \<and> p \<le> 100"
proof -
  define x :: rat where "x = of_nat occ / of_nat tot"
  define x1 where "x1 = to_double x"
  define x2 where "x2 = to_double (x1 * 100)"
  define p :: int where "p = \<lfloor>x2 + 1 / 2\<rfloor>"
  define c :: rat where "c = 2 ^ 53"
  have c: "c = 9007199254740992" by (simp add: c_def)
  have x0: "0 \<le> x" by (simp add: x_def)
  have x1': "x \<le> 1" using assms by (simp add: x_def)
  have e1: "\<bar>x1 - x\<bar> \<le> x / c"
    using to_double_error[of x] x0 by (simp add: x1_def c_def)
  have xc: "x / c \<le> 1 / c" using x1' c by (simp add: divide_right_mono)
  have x1lo: "0 \<le> x1"
  proof -
    have "x / c \<le> x" using x0 c by (simp add: field_simps)
    then show ?thesis using e1 by linarith
  qed
  have x1hi: "x1 \<le> 1 + 1 / c" using e1 xc x1' by linarith
  have e2: "\<bar>x2 - x1 * 100\<bar> \<le> x1 * 100 / c"
    using to_double_error[of "x1 * 100"] x1lo by (simp add: x2_def c_def)
  have "x1 * 100 / c \<le> (1 + 1 / c) * 100 / c"
    using x1hi c by (simp add: divide_right_mono)
  then have e2': "\<bar>x2 - x1 * 100\<bar> \<le> (1 + 1 / c) * 100 / c" using e2 by linarith
  have e3: "\<bar>of_int p - x2\<bar> \<le> 1 / 2"
    unfolding p_def by (rule floor_half_near)
  have small: "(1 + 1 / c) * 100 / c + 100 * (1 / c) \<le> 1 / 2 ^ 45"
    by (simp add: c)
  have tot: "\<bar>x2 - 100 * x\<bar> \<le> 1 / 2 ^ 45"
    using e1 xc e2' small by linarith
  have b: "\<bar>of_int p - 100 * x\<bar> \<le> 1 / 2 + 1 / 2 ^ 45"
    using e3 tot by linarith
  have "(1 / 2 ^ 45 :: rat) < 1 / 2" by simp
  then have "(of_int p :: rat) < 101" and "- 1 < (of_int p :: rat)"
    using b x0 x1' by linarith+
  then have r: "0 \<le> p" "p \<le> 100" by linarith+
  have "Math_round (js_mul (js_div (of_nat occ) (of_nat tot)) 100) = Num (of_int p)"
    using assms(1)
    by (simp add: Math_round_def js_mul_def js_div_def p_def x2_def x1_def x_def)
  then show ?thesis using b r by (auto simp: x_def)
qed

lemma occupied_le_total:
  "bed_count (\<lambda>b. P b \<and> Q b) s \<le> bed_count P s"
proof -
  have "length (filter (\<lambda>kb. P (snd kb) \<and> Q (snd kb)) xs) \<le> length (filter (\<lambda>kb. P (snd kb)) xs)"
    for xs :: "(string \<times> bed) list"
    by (induction xs) auto
  then show ?thesis by (simp add: bed_count_def)
qed

lemma occupancy_unguarded_no_beds: "Math_round (js_mul (js_div 0 0) 100) = NaN"
  by (simp add: Math_round_def js_mul_def js_div_def)

text \<open>
  C10. For a principal with a hospital, when no query rejects, \<^verbatim>\<open>getDashboardStats\<close>
  answers 200 with the bed occupancy of that hospital's beds: with no bed the percentage
  is the number 0, where the quotient of the counts would have been \<^verbatim>\<open>NaN\<close>;
  otherwise it is \<^verbatim>\<open>Math.round((occupied / total) * 100)\<close> in JavaScript's
  arithmetic, an integer from 0 to 100 within \<open>1 / 2 + 1 / 2 ^ 45\<close> of the exact
  percentage. For a principal without a hospital the occupancy is \<^verbatim>\<open>null\<close>. When a
  count of the beds rejects the answer is 500.
\<close>

theorem getDashboardStats_occupancyPercentage:
  "(truthy (hospitalId u) \<and> \<not> fails DashboardQuery \<and> \<not> fails BedCount \<longrightarrow>
      (\<exists>occ. getDashboardStats fails (Some u) s = Returns (200, Json (Some occ)) s \<and>
         total occ = bed_count (\<lambda>b. Some (bed_room_ward_hospitalId b) = hospitalId u) s \<and>
         occupied occ = bed_count (\<lambda>b. Some (bed_room_ward_hospitalId b) = hospitalId u \<and>
                                      bed_status b = ''OCCUPIED'') s \<and>
         (total occ = 0 \<longrightarrow>
            occupancyPercentage occ = Num 0 \<and>
            Math_round (js_mul (js_div (of_nat (occupied occ)) (of_nat (total occ))) 100) = NaN) \<and>
         (0 < total occ \<longrightarrow>
            occupancyPercentage occ =
              Math_round (js_mul (js_div (of_nat (occupied occ)) (of_nat (total occ))) 100) \<and>
            (\<exists>p::int. occupancyPercentage occ = Num (of_int p) \<and>
               \<bar>of_int p - 100 * of_nat (occupied occ) / of_nat (total occ)\<bar>
                 \<le> (1 / 2 + 1 / 2 ^ 45 :: rat) \<and>
               0 \<le> p \<and> p \<le> 100)))) \<and>
   (\<not> truthy (hospitalId u) \<and> \<not> fails DashboardQuery \<longrightarrow>
      getDashboardStats fails (Some u) s = Returns (200, Json None) s) \<and>
   (truthy (hospitalId u) \<and> \<not> fails DashboardQuery \<and> fails BedCount \<longrightarrow>
      getDashboardStats fails (Some u) s =
        Returns (500, Error ''Failed to get dashboard statistics'')
          (s\<lparr>console := console s @ [''Get dashboard stats error:'']\<rparr>))"
proof (intro conjI impI)
  assume t: "truthy (hospitalId u) \<and> \<not> fails DashboardQuery \<and> \<not> fails BedCount"
  let ?T = "bed_count (\<lambda>b. Some (bed_room_ward_hospitalId b) = hospitalId u) s"
  let ?O = "bed_count (\<lambda>b. Some (bed_room_ward_hospitalId b) = hospitalId u \<and>
                                      bed_status b = ''OCCUPIED'') s"
  let ?occ = "\<lparr>total = ?T, occupied = ?O, available = int ?T - int ?O,
               occupancyPercentage =
                 (if 0 < ?T then Math_round (js_mul (js_div (of_nat ?O) (of_nat ?T)) 100)
                  else Num 0)\<rparr>"
  have le: "?O \<le> ?T" by (rule occupied_le_total)
  have run: "getDashboardStats fails (Some u) s = Returns (200, Json (Some ?occ)) s"
    using t by (simp add: getDashboardStats_def io_defs)
  have zero: "occupancyPercentage ?occ = Num 0 \<and>
              Math_round (js_mul (js_div (of_nat (occupied ?occ)) (of_nat (total ?occ))) 100) = NaN"
    if "total ?occ = 0"
    using that le by (simp add: occupancy_unguarded_no_beds)
  have pos: "occupancyPercentage ?occ =
              Math_round (js_mul (js_div (of_nat (occupied ?occ)) (of_nat (total ?occ))) 100) \<and>
            (\<exists>p::int. occupancyPercentage ?occ = Num (of_int p) \<and>
               \<bar>of_int p - 100 * of_nat (occupied ?occ) / of_nat (total ?occ)\<bar>
                 \<le> (1 / 2 + 1 / 2 ^ 45 :: rat) \<and>
               0 \<le> p \<and> p \<le> 100)"
    if "0 < total ?occ"
    using that le occupancy_bound[of ?T ?O] by simp
  show "\<exists>occ. getDashboardStats fails (Some u) s = Returns (200, Json (Some occ)) s \<and>
         total occ = ?T \<and> occupied occ = ?O \<and>
         (total occ = 0 \<longrightarrow>
            occupancyPercentage occ = Num 0 \<and>
            Math_round (js_mul (js_div (of_nat (occupied occ)) (of_nat (total occ))) 100) = NaN) \<and>
         (0 < total occ \<longrightarrow>
            occupancyPercentage occ =
              Math_round (js_mul (js_div (of_nat (occupied occ)) (of_nat (total occ))) 100) \<and>
            (\<exists>p::int. occupancyPercentage occ = Num (of_int p) \<and>
               \<bar>of_int p - 100 * of_nat (occupied occ) / of_nat (total occ)\<bar>
                 \<le> (1 / 2 + 1 / 2 ^ 45 :: rat) \<and>
               0 \<le> p \<and> p \<le> 100))"
    apply (rule exI[of _ ?occ])
    using run zero pos by simp
next
  assume "\<not> truthy (hospitalId u) \<and> \<not> fails DashboardQuery"
  then show "getDashboardStats fails (Some u) s = Returns (200, Json None) s"
    by (simp add: getDashboardStats_def io_defs)
next
  assume "truthy (hospitalId u) \<and> \<not> fails DashboardQuery \<and> fails BedCount"
  then show "getDashboardStats fails (Some u) s =
        Returns (500, Error ''Failed to get dashboard statistics'')
          (s\<lparr>console := console s @ [''Get dashboard stats error:'']\<rparr>)"
    by (simp add: getDashboardStats_def io_defs)
qed

text \<open>
  C10 at a hospital without beds, at hospital h1 with one of its two beds occupied, at a
  principal without a hospital, and at hospital h1 when the counts of the beds reject.
\<close>

theorem getDashboardStats_occupancyPercentage_witness:
  "truthy (hospitalId ward_manager) \<and>
   (\<exists>occ. getDashboardStats nofail (Some ward_manager) empty_db =
            Returns (200, Json (Some occ)) empty_db \<and>
      total occ = 0 \<and> occupancyPercentage occ = Num 0) \<and>
   (\<exists>occ. getDashboardStats nofail (Some ward_manager) clinic_db1 =
            Returns (200, Json (Some occ)) clinic_db1 \<and>
      total occ = 2 \<and> occupied occ = 1 \<and> occupancyPercentage occ = Num 50) \<and>
   \<not> truthy (hospitalId super_admin) \<and>
   getDashboardStats nofail (Some super_admin) clinic_db1 = Returns (200, Json None) clinic_db1 \<and>
   getDashboardStats (\<lambda>c. c = BedCount) (Some ward_manager) clinic_db1 =
     Returns (500, Error ''Failed to get dashboard statistics'')
       (clinic_db1\<lparr>console := console clinic_db1 @ [''Get dashboard stats error:'']\<rparr>)"
proof -
  have t: "truthy (hospitalId ward_manager)" "\<not> truthy (hospitalId super_admin)"
    by (simp_all add: truthy_def ward_manager_def super_admin_def)
  have nf: "\<not> nofail DashboardQuery" "\<not> nofail BedCount" by (simp_all add: nofail_def)
  have beds1: "beds clinic_db1 = [(''b1'', occupied_by ''p1'' ''a1'' free_bed), (''b2'', free_bed)]"
    by (simp add: clinic_db1_def clinic_db_def empty_db_def free_bed_def pending_def
        ward_manager_def meta0_def nofail_def store_of_def
        assignBed_def io_defs admission_findUnique_def bed_findUnique_def
        hospital_access_denied_def bed_update_def bed_update_op_def admission_update_op_def
        transaction_def released_def occupied_by_def admitted_to_def
        createAuditLog_def json_roundtrip_def auditLog_create_def)
  have c0: "bed_count (\<lambda>b. Some (bed_room_ward_hospitalId b) = hospitalId ward_manager) empty_db = 0"
    by (simp add: bed_count_def empty_db_def)
  have c1: "bed_count (\<lambda>b. Some (bed_room_ward_hospitalId b) = hospitalId ward_manager) clinic_db1 = 2"
    "bed_count (\<lambda>b. Some (bed_room_ward_hospitalId b) = hospitalId ward_manager \<and>
                    bed_status b = ''OCCUPIED'') clinic_db1 = 1"
    by (simp_all add: bed_count_def beds1 occupied_by_def free_bed_def ward_manager_def)
  note d0 = getDashboardStats_occupancyPercentage[where u = ward_manager and s = empty_db
      and fails = nofail]
  note d1 = getDashboardStats_occupancyPercentage[where u = ward_manager and s = clinic_db1
      and fails = nofail]
  note d2 = getDashboardStats_occupancyPercentage[where u = super_admin and s = clinic_db1
      and fails = nofail]
  note d3 = getDashboardStats_occupancyPercentage[where u = ward_manager and s = clinic_db1
      and fails = "\<lambda>c. c = BedCount"]
  show ?thesis using d0 d1 d2 d3 t nf c0 c1 by (auto simp: js_add_examples)
qed

end
